theory Spec2Isabelle
  imports Complex_Main
begin

section \<open>Strings and characters\<close>

text \<open>
  JavaScript strings are modelled as \<^typ>\<open>string\<close> (lists of 8-bit characters); token
  names, hex colours and CSS text are taken to be ASCII. \<open>toUpperCase\<close> and
  \<open>toLowerCase\<close> are modelled on the ASCII letters and leave every other character
  unchanged. The three copies of the hex normalization in the source
  (\<open>normalizeHexColor\<close>, \<open>normalizeToHex\<close>, \<open>normalizeHex\<close>) have the same text.
\<close>

definition charCode :: "char \<Rightarrow> nat" where
  "charCode c = of_char c"

definition isDigit :: "char \<Rightarrow> bool" where
  "isDigit c = (48 \<le> charCode c \<and> charCode c \<le> 57)"

definition isLower :: "char \<Rightarrow> bool" where
  "isLower c = (97 \<le> charCode c \<and> charCode c \<le> 122)"

definition isUpper :: "char \<Rightarrow> bool" where
  "isUpper c = (65 \<le> charCode c \<and> charCode c \<le> 90)"

text \<open>
  White space, as \<open>\s\<close>, \<open>trim\<close> and \<open>parseInt\<close> see it: of the 8-bit characters
  these are tab, line feed, vertical tab, form feed, carriage return, space and the
  no-break space.
\<close>

definition isSpace :: "char \<Rightarrow> bool" where
  "isSpace c = ((9 \<le> charCode c \<and> charCode c \<le> 13) \<or> charCode c = 32 \<or> charCode c = 160)"

text \<open>The value of a text of decimal digits.\<close>

definition digitsValue :: "string \<Rightarrow> nat" where
  "digitsValue ds = foldl (\<lambda>acc c. 10 * acc + (charCode c - 48)) 0 ds"

text \<open>The character class \<open>[0-9a-fA-F]\<close>.\<close>

definition isHexDigit :: "char \<Rightarrow> bool" where
  "isHexDigit c =
     (isDigit c \<or> (97 \<le> charCode c \<and> charCode c \<le> 102) \<or> (65 \<le> charCode c \<and> charCode c \<le> 70))"

text \<open>The character class \<open>[0-9A-F]\<close>: the hex digits that \<open>toUpperCase\<close> produces.\<close>

definition isUpperHexDigit :: "char \<Rightarrow> bool" where
  "isUpperHexDigit c = (isDigit c \<or> (65 \<le> charCode c \<and> charCode c \<le> 70))"

definition toUpperChar :: "char \<Rightarrow> char" where
  "toUpperChar c = (if isLower c then char_of (charCode c - 32) else c)"

definition toLowerChar :: "char \<Rightarrow> char" where
  "toLowerChar c = (if isUpper c then char_of (charCode c + 32) else c)"

definition toUpperCase :: "string \<Rightarrow> string" where
  "toUpperCase s = map toUpperChar s"

definition toLowerCase :: "string \<Rightarrow> string" where
  "toLowerCase s = map toLowerChar s"

text \<open>
  The regular expressions \<open>/^#[0-9a-fA-F]{lo,hi}$/\<close>: a \<open>#\<close> followed by between \<open>lo\<close>
  and \<open>hi\<close> hex digits and nothing else.
\<close>

definition hexPattern :: "nat \<Rightarrow> nat \<Rightarrow> string \<Rightarrow> bool" where
  "hexPattern lo hi s =
     (case s of
        [] \<Rightarrow> False
      | c # ds \<Rightarrow> c = CHR ''#'' \<and> lo \<le> length ds \<and> length ds \<le> hi \<and> list_all isHexDigit ds)"

text \<open>
  The schema's \<open>hexColor\<close> pattern \<open>/^#([0-9a-fA-F]{3}|[0-9a-fA-F]{6}|[0-9a-fA-F]{8})$/\<close>.
\<close>

definition hexColor :: "string \<Rightarrow> bool" where
  "hexColor s = (hexPattern 3 3 s \<or> hexPattern 6 6 s \<or> hexPattern 8 8 s)"

section \<open>Token validator utilities (\<open>normalizeHexColor\<close>)\<close>

text \<open>
  \<open>normalizeHexColor\<close>: when the input matches \<open>/^#[0-9a-fA-F]{3}$/\<close> the three digits
  are taken by destructuring and each is written twice, then the whole string is
  upper-cased; any other input is upper-cased as it is.
\<close>

definition normalizeHexColor :: "string \<Rightarrow> string" where
  "normalizeHexColor hex =
     (if hexPattern 3 3 hex
      then (let r = hex ! 1; g = hex ! 2; b = hex ! 3
            in toUpperCase [CHR ''#'', r, r, g, g, b, b])
      else toUpperCase hex)"

text \<open>An already-normalized colour: \<open>#\<close> and exactly \<open>n\<close> digits from \<open>[0-9A-F]\<close>.\<close>

definition normalizedHex :: "nat \<Rightarrow> string \<Rightarrow> bool" where
  "normalizedHex n s =
     (case s of
        [] \<Rightarrow> False
      | c # ds \<Rightarrow> c = CHR ''#'' \<and> length ds = n \<and> list_all isUpperHexDigit ds)"


section \<open>The canonical token types\<close>

text \<open>
  A JavaScript object used as a dictionary (\<open>Record<string, T>\<close>) is modelled as the
  list of its entries in the order \<open>Object.entries\<close> enumerates them. JavaScript
  numbers are modelled as real numbers; where the source can produce \<open>NaN\<close> the model
  uses \<^typ>\<open>real option\<close>, \<^term>\<open>None\<close> standing for \<open>NaN\<close>.
\<close>

type_synonym 'a dict = "(string \<times> 'a) list"

text \<open>A value produced by \<open>JSON.parse\<close>.\<close>

datatype json =
  JNull
| JBool bool
| JNum real
| JStr string
| JArr "json list"
| JObj "(string \<times> json) list"


datatype ColorCategory =
  Primary | Secondary | Tertiary | Neutral | Error | Surface | Background | Custom

record ColorToken =
  "value" :: string
  description :: "string option"
  category :: "ColorCategory option"

text \<open>
  \<open>fontFamily\<close> is declared a string; the Tailwind extractor stores the first element
  of a font list as it is, so the field holds a JSON value. \<open>shadowOpacity\<close> can be
  \<open>NaN\<close>.
\<close>

record TypographyToken =
  fontFamily :: "json option"
  fontSize :: real
  lineHeight :: "real option"
  fontWeight :: "real option"
  letterSpacing :: "real option"

record ElevationToken =
  shadowColor :: string
  shadowOffsetX :: real
  shadowOffsetY :: real
  shadowRadius :: real
  shadowOpacity :: "real option"

record MotionToken =
  duration :: real
  easing :: string

record DesignTokens =
  colors :: "ColorToken dict option"
  typography :: "TypographyToken dict option"
  spacing :: "real dict option"
  radii :: "real dict option"
  elevation :: "ElevationToken dict option"
  motion :: "MotionToken dict option"

definition emptyTokens :: DesignTokens where
  "emptyTokens = \<lparr>colors = None, typography = None, spacing = None, radii = None,
     elevation = None, motion = None\<rparr>"


section \<open>Dictionaries, errors and JSON values\<close>

text \<open>
  A dictionary is given as the list of its own entries in the order JavaScript
  enumerates them: keys that are array indices first, in ascending order, then the
  other keys in the order they were added. \<open>dictGet\<close> is \<open>Map.get\<close> and the lookup of
  an own key.
\<close>

definition dictGet :: "'a dict \<Rightarrow> string \<Rightarrow> 'a option" where
  "dictGet d k = map_of d k"

text \<open>
  Reading \<open>o[k]\<close> on an object made by \<open>JSON.parse\<close> or an object literal: an own
  entry, or else a member inherited from \<open>Object.prototype\<close>, or else \<open>undefined\<close>.
  Every inherited member is a function or, for \<open>__proto__\<close>, the prototype object.
\<close>

definition objectPrototypeNames :: "string list" where
  "objectPrototypeNames =
     [''constructor'', ''__defineGetter__'', ''__defineSetter__'', ''hasOwnProperty'',
      ''__lookupGetter__'', ''__lookupSetter__'', ''isPrototypeOf'', ''propertyIsEnumerable'',
      ''toString'', ''valueOf'', ''__proto__'', ''toLocaleString'']"

datatype 'a property = Own 'a | Inherited | Absent

definition readProperty :: "'a dict \<Rightarrow> string \<Rightarrow> 'a property" where
  "readProperty d k =
     (case map_of d k of
        Some v \<Rightarrow> Own v
      | None \<Rightarrow> if k \<in> set objectPrototypeNames then Inherited else Absent)"

text \<open>
  A key is an array index when it is the decimal text, without leading zeros, of a
  number below \<open>2^32 - 1\<close>.
\<close>

definition isIndexKey :: "string \<Rightarrow> bool" where
  "isIndexKey k =
     (k \<noteq> [] \<and> list_all isDigit k \<and> (k = ''0'' \<or> hd k \<noteq> CHR ''0'') \<and>
      digitsValue k < 4294967295)"

text \<open>A new index key goes before the first entry that is no smaller index.\<close>

fun insertIndexKey :: "'a dict \<Rightarrow> string \<Rightarrow> 'a \<Rightarrow> 'a dict" where
  "insertIndexKey [] k v = [(k, v)]"
| "insertIndexKey ((k', v') # d) k v =
     (if isIndexKey k' \<and> digitsValue k' < digitsValue k
      then (k', v') # insertIndexKey d k v
      else (k, v) # (k', v') # d)"

text \<open>
  The assignment \<open>o[k] = v\<close>: an existing key keeps its place, a new index key is put
  in order, any other new key goes to the end. Assigning to \<open>__proto__\<close> calls the
  inherited setter and adds no entry.
\<close>

definition dictSet :: "'a dict \<Rightarrow> string \<Rightarrow> 'a \<Rightarrow> 'a dict" where
  "dictSet d k v =
     (if k = ''__proto__'' then d
      else if map_of d k \<noteq> None
      then map (\<lambda>(k', v'). if k' = k then (k', v) else (k', v')) d
      else if isIndexKey k then insertIndexKey d k v
      else d @ [(k, v)])"

text \<open>\<open>Object.keys(o)[0]\<close> and \<open>Object.values(o)[0]\<close>, \<open>undefined\<close> on an empty object.\<close>

definition firstKey :: "'a dict \<Rightarrow> string option" where
  "firstKey d = (case d of [] \<Rightarrow> None | (k, v) # _ \<Rightarrow> Some k)"

definition firstValue :: "'a dict \<Rightarrow> 'a option" where
  "firstValue d = (case d of [] \<Rightarrow> None | (k, v) # _ \<Rightarrow> Some v)"

text \<open>\<open>Object.keys(o).length > 0\<close> guards each collection of an extractor's result.\<close>

definition nonEmptyDict :: "'a dict \<Rightarrow> 'a dict option" where
  "nonEmptyDict d = (if length d > 0 then Some d else None)"

text \<open>
  \<open>Object.values(tokens).some(v => v !== undefined)\<close>: whether any collection has
  been assigned.
\<close>

definition hasContent :: "DesignTokens \<Rightarrow> bool" where
  "hasContent t =
     (colors t \<noteq> None \<or> typography t \<noteq> None \<or> spacing t \<noteq> None \<or> radii t \<noteq> None \<or>
      elevation t \<noteq> None \<or> motion t \<noteq> None)"

text \<open>A thrown \<open>Error\<close> is the left injection, carrying the message.\<close>

type_synonym 'a result = "string + 'a"

text \<open>\<open>s.startsWith(p)\<close>, \<open>s.endsWith(p)\<close> and \<open>s.includes(p)\<close>.\<close>

definition startsWith :: "string \<Rightarrow> string \<Rightarrow> bool" where
  "startsWith s p = (take (length p) s = p)"


fun stringIncludes :: "string \<Rightarrow> string \<Rightarrow> bool" where
  "stringIncludes [] p = (p = [])"
| "stringIncludes (c # cs) p = (startsWith (c # cs) p \<or> stringIncludes cs p)"


section \<open>Contrast checker (\<open>validate-contrast.ts\<close>)\<close>

subsection \<open>\<open>parseInt(s, 16)\<close>\<close>

text \<open>
  \<open>parseInt\<close> with radix 16 skips leading white space, reads an optional sign and an
  optional \<open>0x\<close>/\<open>0X\<close> prefix, and converts the longest prefix of hex digits that
  follows; it returns \<open>NaN\<close> (here \<^term>\<open>None\<close>) when that prefix is empty.
\<close>


definition hexDigitValue :: "char \<Rightarrow> nat" where
  "hexDigitValue c =
     (if isDigit c then charCode c - 48
      else if 97 \<le> charCode c then charCode c - 87
      else charCode c - 55)"

definition hexValue :: "string \<Rightarrow> nat" where
  "hexValue ds = foldl (\<lambda>acc c. 16 * acc + hexDigitValue c) 0 ds"

definition stripHexPrefix :: "string \<Rightarrow> string" where
  "stripHexPrefix s =
     (case s of
        c # d # rest \<Rightarrow> if c = CHR ''0'' \<and> (d = CHR ''x'' \<or> d = CHR ''X'') then rest else s
      | _ \<Rightarrow> s)"

definition parseInt16 :: "string \<Rightarrow> real option" where
  "parseInt16 str =
     (let s = dropWhile isSpace str;
          sign = (case s of c # _ \<Rightarrow> if c = CHR ''-'' then - 1 else 1 | [] \<Rightarrow> (1::real));
          s1 = (case s of c # rest \<Rightarrow> if c = CHR ''-'' \<or> c = CHR ''+'' then rest else s | [] \<Rightarrow> s);
          z = takeWhile isHexDigit (stripHexPrefix s1)
      in if z = [] then None else Some (sign * real (hexValue z)))"

subsection \<open>Relative luminance and contrast ratio\<close>

definition linearize :: "real \<Rightarrow> real" where
  "linearize c = (if c \<le> 0.03928 then c / 12.92 else ((c + 0.055) / 1.055) powr 2.4)"

text \<open>\<open>hex.replace("#", "")\<close> removes the first \<open>#\<close> of the string.\<close>

fun removeFirstHash :: "string \<Rightarrow> string" where
  "removeFirstHash [] = []"
| "removeFirstHash (c # cs) = (if c = CHR ''#'' then cs else c # removeFirstHash cs)"

text \<open>\<open>s.slice(i, j)\<close> for \<open>0 \<le> i \<le> j\<close>.\<close>

definition slice :: "nat \<Rightarrow> nat \<Rightarrow> 'a list \<Rightarrow> 'a list" where
  "slice i j s = take (j - i) (drop i s)"

definition channel :: "string \<Rightarrow> real option" where
  "channel s = map_option (\<lambda>n. linearize (n / 255)) (parseInt16 s)"

text \<open>
  The last four lines of \<open>relativeLuminance\<close>: the three channels are read from the
  digit pairs at positions 0, 2 and 4 and weighted. A \<open>NaN\<close> channel makes the sum
  \<open>NaN\<close>.
\<close>

definition luminanceOfDigits :: "string \<Rightarrow> real option" where
  "luminanceOfDigits h =
     (case (channel (slice 0 2 h), channel (slice 2 4 h), channel (slice 4 6 h)) of
        (Some r, Some g, Some b) \<Rightarrow> Some (0.2126 * r + 0.7152 * g + 0.0722 * b)
      | _ \<Rightarrow> None)"

definition relativeLuminance :: "string \<Rightarrow> real option" where
  "relativeLuminance hex =
     (let h = removeFirstHash hex
      in if length h = 3
         then luminanceOfDigits [h ! 0, h ! 0, h ! 1, h ! 1, h ! 2, h ! 2]
         else luminanceOfDigits h)"

definition contrastRatio :: "string \<Rightarrow> string \<Rightarrow> real option" where
  "contrastRatio hex1 hex2 =
     (case (relativeLuminance hex1, relativeLuminance hex2) of
        (Some l1, Some l2) \<Rightarrow>
          (let lighter = max l1 l2; darker = min l1 l2
           in Some ((lighter + 0.05) / (darker + 0.05)))
      | _ \<Rightarrow> None)"

subsection \<open>Pairing\<close>

record ColorPair =
  name :: string
  fg :: string
  bg :: string

text \<open>
  The first loop of \<open>findSemanticPairs\<close>: for every colour \<open>bgName\<close>, every colour
  named \<open>on-bgName\<close> or \<open>onBgName\<close> (first letter upper-cased) is paired with it.
\<close>

definition onNameOf :: "string \<Rightarrow> string" where
  "onNameOf bgName = ''on-'' @ bgName"

definition onNameCamelOf :: "string \<Rightarrow> string" where
  "onNameCamelOf bgName = ''on'' @ toUpperCase (take 1 bgName) @ drop 1 bgName"

definition onCompanionPairs :: "ColorToken dict \<Rightarrow> ColorPair list" where
  "onCompanionPairs entries =
     concat (map (\<lambda>(bgName, bgToken).
       map (\<lambda>(fgName, fgToken).
              \<lparr>name = fgName @ '' on '' @ bgName, fg = value fgToken, bg = value bgToken\<rparr>)
           (filter (\<lambda>(fgName, fgToken). fgName = onNameOf bgName \<or> fgName = onNameCamelOf bgName)
              entries))
       entries)"

text \<open>
  \<open>/^(text|foreground|fg|on-surface|on-background)$/i\<close> and
  \<open>/^(surface|background|bg|canvas)$/i\<close>: whole-string matches, letters compared
  without regard to case.
\<close>

definition isTextName :: "string \<Rightarrow> bool" where
  "isTextName n =
     (toLowerCase n \<in> set [''text'', ''foreground'', ''fg'', ''on-surface'', ''on-background''])"

definition isBgName :: "string \<Rightarrow> bool" where
  "isBgName n = (toLowerCase n \<in> set [''surface'', ''background'', ''bg'', ''canvas''])"

text \<open>Whether a pair of the given name is in the list (\<open>pairs.some(p => p.name === n)\<close>).\<close>

definition hasName :: "string \<Rightarrow> ColorPair list \<Rightarrow> bool" where
  "hasName n ps = list_ex (\<lambda>p. name p = n) ps"

text \<open>
  The second pair of loops: every text colour against every background colour; a pair
  is pushed unless a pair of that name is already in the list.
\<close>

definition pushCommonPair :: "string \<times> ColorToken \<Rightarrow> ColorPair list \<Rightarrow> string \<times> ColorToken \<Rightarrow> ColorPair list" where
  "pushCommonPair fgEntry pairs bgEntry =
     (let pairName = fst fgEntry @ '' on '' @ fst bgEntry
      in if \<not> hasName pairName pairs
         then pairs @ [\<lparr>name = pairName, fg = value (snd fgEntry), bg = value (snd bgEntry)\<rparr>]
         else pairs)"

definition pushCommonPairs :: "ColorToken dict \<Rightarrow> ColorPair list \<Rightarrow> string \<times> ColorToken \<Rightarrow> ColorPair list" where
  "pushCommonPairs bgColors pairs fgEntry = foldl (pushCommonPair fgEntry) pairs bgColors"

definition findSemanticPairs :: "ColorToken dict \<Rightarrow> ColorPair list" where
  "findSemanticPairs entries =
     (let pairs = onCompanionPairs entries;
          textColors = filter (\<lambda>(n, t). isTextName n) entries;
          bgColors = filter (\<lambda>(n, t). isBgName n) entries
      in foldl (pushCommonPairs bgColors) pairs textColors)"

text \<open>A colour set with one companion pair and one text/background pair.\<close>

definition mkColor :: "string \<Rightarrow> ColorToken" where
  "mkColor v = \<lparr>value = v, description = None, category = None\<rparr>"

definition companionAndTextColors :: "ColorToken dict" where
  "companionAndTextColors =
     [(''primary'', mkColor ''#6750A4''), (''on-primary'', mkColor ''#FFFFFF''),
      (''text'', mkColor ''#1C1B1F''), (''background'', mkColor ''#FFFBFE'')]"

text \<open>
  A colour set in which the companion of \<open>surface\<close> is a text colour as well, and two
  colours that are neither companions nor text or background colours.
\<close>

definition surfaceColors :: "ColorToken dict" where
  "surfaceColors =
     [(''surface'', mkColor ''#FFFBFE''), (''on-surface'', mkColor ''#1C1B1F''),
      (''text'', mkColor ''#000000'')]"

definition brandColors :: "ColorToken dict" where
  "brandColors = [(''primary'', mkColor ''#6750A4''), (''secondary'', mkColor ''#625B71'')]"

subsection \<open>The report\<close>

datatype Level = AA | AAA

record ContrastResult =
  pair :: string
  foreground :: string
  background :: string
  ratio :: "real option"
  aaNormalText :: bool
  aaLargeText :: bool
  aaaNormalText :: bool
  aaaLargeText :: bool

record ContrastReport =
  level :: Level
  total :: int
  passing :: int
  failing :: int
  results :: "ContrastResult list"

text \<open>A comparison \<open>ratio >= t\<close> is false when \<open>ratio\<close> is \<open>NaN\<close>.\<close>

definition geq :: "real option \<Rightarrow> real \<Rightarrow> bool" where
  "geq r t = (case r of None \<Rightarrow> False | Some x \<Rightarrow> t \<le> x)"

text \<open>\<open>Math.round(ratio * 100) / 100\<close>; \<open>Math.round\<close> rounds halves upwards.\<close>

definition round2 :: "real option \<Rightarrow> real option" where
  "round2 r = map_option (\<lambda>x. real_of_int \<lfloor>x * 100 + 1 / 2\<rfloor> / 100) r"

definition contrastResult :: "ColorPair \<Rightarrow> ContrastResult" where
  "contrastResult p =
     (let r = contrastRatio (fg p) (bg p)
      in \<lparr>pair = name p, foreground = fg p, background = bg p, ratio = round2 r,
          aaNormalText = geq r 4.5, aaLargeText = geq r 3,
          aaaNormalText = geq r 7, aaaLargeText = geq r 4.5\<rparr>)"

text \<open>The exhaustive pairing \<open>i < j\<close> over \<open>Object.entries(tokens.colors)\<close>.\<close>

fun allPairs :: "ColorToken dict \<Rightarrow> ColorPair list" where
  "allPairs [] = []"
| "allPairs (e # es) =
     map (\<lambda>e'. \<lparr>name = fst e @ ''/'' @ fst e', fg = value (snd e), bg = value (snd e')\<rparr>) es
     @ allPairs es"

definition passesAt :: "Level \<Rightarrow> ContrastResult \<Rightarrow> bool" where
  "passesAt lv r = (if lv = AA then aaNormalText r else aaaNormalText r)"

definition validateContrast :: "DesignTokens \<Rightarrow> Level \<Rightarrow> ContrastReport" where
  "validateContrast tokens lv =
     (case colors tokens of
        None \<Rightarrow> \<lparr>level = lv, total = 0, passing = 0, failing = 0, results = []\<rparr>
      | Some cs \<Rightarrow>
          if length cs < 2
          then \<lparr>level = lv, total = 0, passing = 0, failing = 0, results = []\<rparr>
          else
            (let semantic = findSemanticPairs cs;
                 pairs = (if length semantic = 0 then allPairs cs else semantic);
                 rs = map contrastResult pairs;
                 passingCount = int (length (filter (passesAt lv) rs))
             in \<lparr>level = lv, total = int (length rs), passing = passingCount,
                 failing = int (length rs) - passingCount, results = rs\<rparr>))"


section \<open>Variable-graph extractor (\<open>extractTokensFromFigmaVariables\<close>)\<close>

text \<open>
  The parsed export, after the source's interfaces \<open>FigmaVariablesExport\<close>,
  \<open>FigmaVariable\<close>, \<open>FigmaVariableCollection\<close> and \<open>FigmaValue\<close>. An absent property
  is \<^term>\<open>None\<close>. Field names carry a prefix where records would clash.
  \<open>PrototypeMember\<close> is what reading \<open>valuesByMode[modeId]\<close> gives when the mode id is
  no own key but names a member of \<open>Object.prototype\<close>: a value that is neither
  \<open>undefined\<close> nor an alias, a colour or a number.
\<close>

datatype FigmaValue =
  ColorValue real real real real
| FloatValue real
| StringValue string
| BooleanValue bool
| VariableAlias string
| PrototypeMember

datatype ResolvedType = COLOR | FLOAT | STRING | BOOLEAN

record FigmaVariable =
  varId :: string
  varName :: string
  resolvedType :: ResolvedType
  valuesByMode :: "FigmaValue dict"
  varDescription :: "string option"

record FigmaVariableCollection =
  collId :: string
  collName :: string
  modes :: "(string \<times> string) list"
  defaultModeId :: "string option"

record FigmaMeta =
  metaVariables :: "FigmaVariable dict option"
  metaVariableCollections :: "FigmaVariableCollection dict option"

record FigmaVariablesExport =
  variables :: "FigmaVariable dict option"
  variableCollections :: "FigmaVariableCollection dict option"
  meta :: "FigmaMeta option"

subsection \<open>Alias resolution\<close>

text \<open>A property key computed from a possibly undefined mode id.\<close>

definition modeKey :: "string option \<Rightarrow> string" where
  "modeKey modeId = (case modeId of None \<Rightarrow> ''undefined'' | Some m \<Rightarrow> m)"

text \<open>\<open>valuesByMode[modeId]\<close>\<close>

definition modeValue :: "FigmaValue dict \<Rightarrow> string \<Rightarrow> FigmaValue option" where
  "modeValue values k =
     (case readProperty values k of
        Own v \<Rightarrow> Some v
      | Inherited \<Rightarrow> Some PrototypeMember
      | Absent \<Rightarrow> None)"

text \<open>\<open>target.valuesByMode[modeId] ?? Object.values(target.valuesByMode)[0]\<close>\<close>

definition targetValueOf :: "FigmaVariable \<Rightarrow> string option \<Rightarrow> FigmaValue option" where
  "targetValueOf target modeId =
     (case modeValue (valuesByMode target) (modeKey modeId) of
        Some v \<Rightarrow> Some v
      | None \<Rightarrow> firstValue (valuesByMode target))"

text \<open>
  What \<open>resolveAlias\<close> does with a value before it recurses. An alias whose id is a
  key of \<open>variables\<close> leads to the target's value. An alias whose id is no key stops
  the resolution, unless the id names a member of \<open>Object.prototype\<close>: then
  \<open>variables[value.id]\<close> is that member, which is truthy and has no \<open>valuesByMode\<close>,
  and reading \<open>target.valuesByMode[modeId]\<close> throws a \<open>TypeError\<close>. Any other value
  stops the resolution.
\<close>

datatype 'v link = Follows 'v | Stops | Throws

definition aliasLink ::
  "FigmaVariable dict \<Rightarrow> string option \<Rightarrow> FigmaValue option \<Rightarrow> FigmaValue option link" where
  "aliasLink vars modeId v =
     (case v of
        Some (VariableAlias i) \<Rightarrow>
          (case readProperty vars i of
             Own target \<Rightarrow> Follows (targetValueOf target modeId)
           | Inherited \<Rightarrow> Throws
           | Absent \<Rightarrow> Stops)
      | _ \<Rightarrow> Stops)"

definition undefinedTypeError :: string where
  "undefinedTypeError = ''TypeError: Cannot read properties of undefined''"

function resolveAlias ::
  "FigmaValue option \<Rightarrow> FigmaVariable dict \<Rightarrow> string option \<Rightarrow> int \<Rightarrow> FigmaValue option result" where
  "resolveAlias v vars modeId maxDepth =
     (if maxDepth \<le> 0 then Inr v
      else case aliasLink vars modeId v of
             Follows targetValue \<Rightarrow> resolveAlias targetValue vars modeId (maxDepth - 1)
           | Throws \<Rightarrow> Inl undefinedTypeError
           | Stops \<Rightarrow> Inr v)"
  by pat_completeness auto
termination
  by (relation "measure (\<lambda>(v, vars, modeId, maxDepth). nat maxDepth)") auto

subsection \<open>Names, colours and categories\<close>

text \<open>\<open>name.split("/").pop()\<close>: the part after the last \<open>/\<close>.\<close>

definition lastSegment :: "string \<Rightarrow> string" where
  "lastSegment s = rev (takeWhile (\<lambda>c. c \<noteq> CHR ''/'') (rev s))"

text \<open>\<open>.replace(/\s+/g, "-")\<close>: every maximal run of white space becomes one hyphen.\<close>

function spacesToHyphens :: "string \<Rightarrow> string" where
  "spacesToHyphens [] = []"
| "spacesToHyphens (c # cs) =
     (if isSpace c then CHR ''-'' # spacesToHyphens (dropWhile isSpace cs)
      else c # spacesToHyphens cs)"
  by pat_completeness auto
termination
  by (relation "measure length") (auto intro: le_imp_less_Suc length_dropWhile_le)

text \<open>\<open>.replace(/([a-z])([A-Z])/g, "$1-$2")\<close>: a hyphen between a lower-case letter and an
  upper-case letter that follows it.\<close>

fun camelToKebab :: "string \<Rightarrow> string" where
  "camelToKebab (c # d # cs) =
     (if isLower c \<and> isUpper d then c # CHR ''-'' # d # camelToKebab cs
      else c # camelToKebab (d # cs))"
| "camelToKebab cs = cs"

definition normalizeVariableName :: "string \<Rightarrow> string" where
  "normalizeVariableName n = toLowerCase (camelToKebab (spacesToHyphens (lastSegment n)))"

definition inferColorCategory :: "string \<Rightarrow> ColorCategory option" where
  "inferColorCategory n =
     (let lower = toLowerCase n
      in if stringIncludes lower ''primary'' then Some Primary
         else if stringIncludes lower ''secondary'' then Some Secondary
         else if stringIncludes lower ''tertiary'' then Some Tertiary
         else if stringIncludes lower ''neutral'' \<or> stringIncludes lower ''gray'' \<or> stringIncludes lower ''grey''
           then Some Neutral
         else if stringIncludes lower ''error'' \<or> stringIncludes lower ''danger'' \<or> stringIncludes lower ''destructive''
           then Some Error
         else if stringIncludes lower ''surface'' then Some Surface
         else if stringIncludes lower ''background'' \<or> stringIncludes lower ''bg'' then Some Background
         else None)"

text \<open>\<open>n.toString(16)\<close> for an integer \<open>n\<close>, and \<open>.padStart(2, "0")\<close>.\<close>

definition hexDigitChar :: "nat \<Rightarrow> char" where
  "hexDigitChar d = (if d < 10 then char_of (48 + d) else char_of (87 + d))"

fun natToHex :: "nat \<Rightarrow> string" where
  "natToHex n = (if n < 16 then [hexDigitChar n] else natToHex (n div 16) @ [hexDigitChar (n mod 16)])"

definition intToHex :: "int \<Rightarrow> string" where
  "intToHex n = (if n < 0 then CHR ''-'' # natToHex (nat (- n)) else natToHex (nat n))"

definition padStart2 :: "string \<Rightarrow> string" where
  "padStart2 s = replicate (2 - length s) CHR ''0'' @ s"

text \<open>\<open>Math.round\<close> rounds to the nearest integer, halves upwards.\<close>

definition mathRound :: "real \<Rightarrow> int" where
  "mathRound x = \<lfloor>x + 1 / 2\<rfloor>"

definition figmaChannel :: "real \<Rightarrow> string" where
  "figmaChannel c = padStart2 (intToHex (mathRound (c * 255)))"

definition figmaColorToHex :: "real \<Rightarrow> real \<Rightarrow> real \<Rightarrow> string" where
  "figmaColorToHex r g b = toUpperCase (''#'' @ figmaChannel r @ figmaChannel g @ figmaChannel b)"

subsection \<open>The extraction loop\<close>

text \<open>
  Lines 375--380: the default mode id is the \<open>defaultModeId\<close> of the first collection,
  and undefined when there is no collection.
\<close>

definition findDefaultModeId :: "FigmaVariableCollection dict \<Rightarrow> string option" where
  "findDefaultModeId collections =
     (case collections of [] \<Rightarrow> None | (k, collection) # _ \<Rightarrow> defaultModeId collection)"

text \<open>\<open>defaultModeId ?? Object.keys(variable.valuesByMode)[0]\<close>\<close>

definition selectModeId :: "string option \<Rightarrow> FigmaVariable \<Rightarrow> string option" where
  "selectModeId dflt variable =
     (case dflt of Some d \<Rightarrow> Some d | None \<Rightarrow> firstKey (valuesByMode variable))"

text \<open>\<open>variable.valuesByMode[modeId]\<close>\<close>

definition selectValue :: "string option \<Rightarrow> FigmaVariable \<Rightarrow> FigmaValue option" where
  "selectValue dflt variable =
     modeValue (valuesByMode variable) (modeKey (selectModeId dflt variable))"

record FigmaAcc =
  accColors :: "ColorToken dict"
  accSpacing :: "real dict"
  accRadii :: "real dict"

definition emptyAcc :: FigmaAcc where
  "emptyAcc = \<lparr>accColors = [], accSpacing = [], accRadii = []\<rparr>"

definition truthyString :: "string option \<Rightarrow> string option" where
  "truthyString s = (case s of Some t \<Rightarrow> if t = [] then None else Some t | None \<Rightarrow> None)"

text \<open>
  The \<open>switch\<close> of the loop body: the resolved value of a variable is mapped to a
  colour, a radius or a spacing, or to nothing.
\<close>

definition storeToken :: "FigmaAcc \<Rightarrow> FigmaVariable \<Rightarrow> FigmaValue option \<Rightarrow> FigmaAcc" where
  "storeToken acc variable v =
     (let n = normalizeVariableName (varName variable)
      in case resolvedType variable of
           COLOR \<Rightarrow>
             (case v of
                Some (ColorValue r g b a) \<Rightarrow>
                  acc\<lparr>accColors := dictSet (accColors acc) n
                        \<lparr>value = figmaColorToHex r g b,
                         description = truthyString (varDescription variable),
                         category = inferColorCategory (varName variable)\<rparr>\<rparr>
              | _ \<Rightarrow> acc)
         | FLOAT \<Rightarrow>
             (case v of
                Some (FloatValue x) \<Rightarrow>
                  (let lowerName = toLowerCase (varName variable)
                   in if stringIncludes lowerName ''radius'' \<or> stringIncludes lowerName ''corner''
                      then acc\<lparr>accRadii := dictSet (accRadii acc) n x\<rparr>
                      else acc\<lparr>accSpacing := dictSet (accSpacing acc) n x\<rparr>)
              | _ \<Rightarrow> acc)
         | _ \<Rightarrow> acc)"

text \<open>
  The loop body: select the mode and the value, resolve aliases, map the value. A
  \<open>TypeError\<close> thrown by the resolution leaves the loop and the extractor.
\<close>

definition processVariable ::
  "string option \<Rightarrow> FigmaVariable dict \<Rightarrow> FigmaAcc \<Rightarrow> FigmaVariable \<Rightarrow> FigmaAcc result" where
  "processVariable dflt vars acc variable =
     (let modeId = selectModeId dflt variable
      in case resolveAlias (selectValue dflt variable) vars modeId 10 of
           Inl e \<Rightarrow> Inl e
         | Inr v \<Rightarrow> Inr (storeToken acc variable v))"

fun processAll ::
  "string option \<Rightarrow> FigmaVariable dict \<Rightarrow> FigmaAcc \<Rightarrow> FigmaVariable list \<Rightarrow> FigmaAcc result" where
  "processAll dflt vars acc [] = Inr acc"
| "processAll dflt vars acc (variable # rest) =
     (case processVariable dflt vars acc variable of
        Inl e \<Rightarrow> Inl e
      | Inr acc' \<Rightarrow> processAll dflt vars acc' rest)"

text \<open>The end of the extractor: the non-empty collections, or the error when all are empty.\<close>

definition finishTokens :: "FigmaAcc \<Rightarrow> DesignTokens result" where
  "finishTokens acc =
     (let tokens = emptyTokens\<lparr>colors := nonEmptyDict (accColors acc),
                                spacing := nonEmptyDict (accSpacing acc),
                                radii := nonEmptyDict (accRadii acc)\<rparr>
      in if \<not> hasContent tokens
         then Inl ''Figma variables found but none could be mapped to design tokens.''
         else Inr tokens)"

text \<open>\<open>data.variables ?? raw.meta?.variables ?? {}\<close>, and the same for the collections.\<close>

definition exportVariables :: "FigmaVariablesExport \<Rightarrow> FigmaVariable dict" where
  "exportVariables d =
     (case variables d of
        Some vs \<Rightarrow> vs
      | None \<Rightarrow> (case meta d of
                   Some m \<Rightarrow> (case metaVariables m of Some vs \<Rightarrow> vs | None \<Rightarrow> [])
                 | None \<Rightarrow> []))"

definition exportCollections :: "FigmaVariablesExport \<Rightarrow> FigmaVariableCollection dict" where
  "exportCollections d =
     (case variableCollections d of
        Some cs \<Rightarrow> cs
      | None \<Rightarrow> (case meta d of
                   Some m \<Rightarrow> (case metaVariableCollections m of Some cs \<Rightarrow> cs | None \<Rightarrow> [])
                 | None \<Rightarrow> []))"

text \<open>
  \<open>extractTokensFromFigmaVariables\<close> from the parsed export on (the \<open>JSON.parse\<close> of
  the text and its error are not part of the model).
\<close>

definition extractTokensFromFigmaVariables :: "FigmaVariablesExport \<Rightarrow> DesignTokens result" where
  "extractTokensFromFigmaVariables d =
     (let vars = exportVariables d;
          collections = exportCollections d
      in if length vars = 0 then Inl ''No variables found in the Figma export.''
         else
           (case processAll (findDefaultModeId collections) vars emptyAcc (map snd vars) of
              Inl e \<Rightarrow> Inl e
            | Inr acc \<Rightarrow> finishTokens acc))"

subsection \<open>The selection rule in the words of the specification\<close>

text \<open>
  The specification speaks of the variable's own collection. The export relates the two
  through the modes: a variable holds one value per mode of its collection, so its own
  collection is the one that lists a mode the variable has a value for.
\<close>

definition spec_ownCollection ::
  "FigmaVariableCollection dict \<Rightarrow> FigmaVariable \<Rightarrow> FigmaVariableCollection option" where
  "spec_ownCollection collections variable =
     map_option snd
       (find (\<lambda>(k, c). list_ex (\<lambda>(modeId, modeName). modeValue (valuesByMode variable) modeId \<noteq> None)
                          (modes c))
          collections)"

definition spec_selectValue ::
  "FigmaVariableCollection dict \<Rightarrow> FigmaVariable \<Rightarrow> FigmaValue option" where
  "spec_selectValue collections variable =
     (case spec_ownCollection collections variable of
        Some c \<Rightarrow>
          (case defaultModeId c of
             Some d \<Rightarrow> modeValue (valuesByMode variable) d
           | None \<Rightarrow> firstValue (valuesByMode variable))
      | None \<Rightarrow> firstValue (valuesByMode variable))"

text \<open>An export with two collections and one variable in each.\<close>

definition spacingCollection :: FigmaVariableCollection where
  "spacingCollection =
     \<lparr>collId = ''collection:1'', collName = ''Spacing'',
      modes = [(''mode:1'', ''Default'')], defaultModeId = Some ''mode:1''\<rparr>"

definition shapeCollection :: FigmaVariableCollection where
  "shapeCollection =
     \<lparr>collId = ''collection:2'', collName = ''Shape'',
      modes = [(''mode:2'', ''Default'')], defaultModeId = Some ''mode:2''\<rparr>"

definition spacingVariable :: FigmaVariable where
  "spacingVariable =
     \<lparr>varId = ''var:1'', varName = ''Spacing/xs'', resolvedType = FLOAT,
      valuesByMode = [(''mode:1'', FloatValue 4)], varDescription = None\<rparr>"

definition radiusVariable :: FigmaVariable where
  "radiusVariable =
     \<lparr>varId = ''var:2'', varName = ''Corner Radius/sm'', resolvedType = FLOAT,
      valuesByMode = [(''mode:2'', FloatValue 8)], varDescription = None\<rparr>"

definition twoCollectionExport :: FigmaVariablesExport where
  "twoCollectionExport =
     \<lparr>variables = Some [(''var:1'', spacingVariable), (''var:2'', radiusVariable)],
      variableCollections = Some
        [(''collection:1'', spacingCollection), (''collection:2'', shapeCollection)],
      meta = None\<rparr>"

text \<open>An export nested under \<open>meta\<close>, without collections.\<close>

definition metaWrappedExport :: FigmaVariablesExport where
  "metaWrappedExport =
     \<lparr>variables = None, variableCollections = None,
      meta = Some \<lparr>metaVariables = Some [(''var:2'', radiusVariable)],
                    metaVariableCollections = Some []\<rparr>\<rparr>"

text \<open>Two variables that are aliases of each other, and the values met along the cycle.\<close>

definition cycleA :: FigmaVariable where
  "cycleA =
     \<lparr>varId = ''var:a'', varName = ''Colors/A'', resolvedType = COLOR,
      valuesByMode = [(''mode:1'', VariableAlias ''var:b'')], varDescription = None\<rparr>"

definition cycleB :: FigmaVariable where
  "cycleB =
     \<lparr>varId = ''var:b'', varName = ''Colors/B'', resolvedType = COLOR,
      valuesByMode = [(''mode:1'', VariableAlias ''var:a'')], varDescription = None\<rparr>"

definition cyclicVariables :: "FigmaVariable dict" where
  "cyclicVariables = [(''var:a'', cycleA), (''var:b'', cycleB)]"


text \<open>The same cycle in an export, with a variable that is an alias into it and a plain one.\<close>

definition cycleExport :: FigmaVariablesExport where
  "cycleExport =
     \<lparr>variables = Some (cyclicVariables @ [(''var:1'', spacingVariable)]),
      variableCollections = Some [(''collection:1'', spacingCollection)],
      meta = None\<rparr>"









section \<open>DTCG extractor: alias resolution (\<open>resolveAliases\<close>)\<close>












section \<open>The token schema and \<open>validateTokens\<close>\<close>

text \<open>
  The schema is written with the zod library, which is not part of the repository. Its
  combinators are modelled as parsers from a JSON value to a status and a list of
  issues, after zod 3: a value of the wrong type aborts the parser of that value, a
  failed check leaves it running, every field of an object and every entry of a record
  is parsed, and a refinement runs unless the parser it wraps aborted. A value is valid
  when no issue was raised. Messages composed by zod itself are constructors; messages
  given in the schema are kept as text.
\<close>

datatype issueMessage =
  Message string
| InvalidType
| NotInteger
| InvalidEnumValue

type_synonym issue = "string list \<times> issueMessage"

text \<open>The first component tells whether the parser aborted.\<close>

type_synonym parsed = "bool \<times> issue list"

definition parsedOk :: parsed where
  "parsedOk = (False, [])"

definition invalidType :: "string list \<Rightarrow> parsed" where
  "invalidType p = (True, [(p, InvalidType)])"

definition failedCheck :: "string list \<Rightarrow> string \<Rightarrow> parsed" where
  "failedCheck p m = (False, [(p, Message m)])"

definition mergeParsed :: "parsed list \<Rightarrow> parsed" where
  "mergeParsed ps = (list_ex fst ps, concat (map snd ps))"

text \<open>\<open>.optional()\<close> accepts an absent property; a required property that is absent is
  of the wrong type (\<open>undefined\<close>).\<close>

definition parseOptional ::
  "(string list \<Rightarrow> json \<Rightarrow> parsed) \<Rightarrow> string list \<Rightarrow> json option \<Rightarrow> parsed" where
  "parseOptional schema p v = (case v of None \<Rightarrow> parsedOk | Some x \<Rightarrow> schema p x)"

definition parseRequired ::
  "(string list \<Rightarrow> json \<Rightarrow> parsed) \<Rightarrow> string list \<Rightarrow> json option \<Rightarrow> parsed" where
  "parseRequired schema p v = (case v of None \<Rightarrow> invalidType p | Some x \<Rightarrow> schema p x)"

text \<open>\<open>z.record(z.string(), schema)\<close>\<close>

definition parseRecord ::
  "(string list \<Rightarrow> json \<Rightarrow> parsed) \<Rightarrow> string list \<Rightarrow> json \<Rightarrow> parsed" where
  "parseRecord schema p v =
     (case v of
        JObj entries \<Rightarrow> mergeParsed (map (\<lambda>(k, x). schema (p @ [k]) x) entries)
      | _ \<Rightarrow> invalidType p)"

text \<open>\<open>z.string()\<close> and \<open>z.string().min(1, m)\<close>\<close>

definition parseString :: "string list \<Rightarrow> json \<Rightarrow> parsed" where
  "parseString p v = (case v of JStr s \<Rightarrow> parsedOk | _ \<Rightarrow> invalidType p)"

definition parseNonEmptyString :: "string \<Rightarrow> string list \<Rightarrow> json \<Rightarrow> parsed" where
  "parseNonEmptyString m p v =
     (case v of
        JStr s \<Rightarrow> if length s \<ge> 1 then parsedOk else failedCheck p m
      | _ \<Rightarrow> invalidType p)"

text \<open>
  \<open>z.number()\<close> followed by checks: each check is a predicate on the number with the
  message raised when it fails.
\<close>

definition parseNumber ::
  "((real \<Rightarrow> bool) \<times> issueMessage) list \<Rightarrow> string list \<Rightarrow> json \<Rightarrow> parsed" where
  "parseNumber checks p v =
     (case v of
        JNum x \<Rightarrow> (False, map (\<lambda>(ok, m). (p, m)) (filter (\<lambda>(ok, m). \<not> ok x) checks))
      | _ \<Rightarrow> invalidType p)"

definition hexColorSchema :: "string list \<Rightarrow> json \<Rightarrow> parsed" where
  "hexColorSchema p v =
     (case v of
        JStr s \<Rightarrow>
          if hexColor s then parsedOk
          else failedCheck p ''Must be a valid hex color (#RGB, #RRGGBB, or #RRGGBBAA)''
      | _ \<Rightarrow> invalidType p)"

definition categoryNames :: "string list" where
  "categoryNames =
     [''primary'', ''secondary'', ''tertiary'', ''neutral'', ''error'', ''surface'',
      ''background'', ''custom'']"

definition categorySchema :: "string list \<Rightarrow> json \<Rightarrow> parsed" where
  "categorySchema p v =
     (case v of
        JStr s \<Rightarrow> if s \<in> set categoryNames then parsedOk else (True, [(p, InvalidEnumValue)])
      | _ \<Rightarrow> invalidType p)"

definition colorToken :: "string list \<Rightarrow> json \<Rightarrow> parsed" where
  "colorToken p v =
     (case v of
        JObj props \<Rightarrow>
          mergeParsed
            [parseRequired hexColorSchema (p @ [''value'']) (map_of props ''value''),
             parseOptional parseString (p @ [''description'']) (map_of props ''description''),
             parseOptional categorySchema (p @ [''category'']) (map_of props ''category'')]
      | _ \<Rightarrow> invalidType p)"

text \<open>
  \<open>Number.isInteger\<close> and the remainder operator \<open>%\<close>, whose result takes the sign of
  the dividend.
\<close>

definition isInteger :: "real \<Rightarrow> bool" where
  "isInteger x = (real_of_int \<lfloor>x\<rfloor> = x)"

definition jsTrunc :: "real \<Rightarrow> int" where
  "jsTrunc x = (if x \<ge> 0 then \<lfloor>x\<rfloor> else \<lceil>x\<rceil>)"

definition jsRem :: "real \<Rightarrow> real \<Rightarrow> real" where
  "jsRem x m = x - m * real_of_int (jsTrunc (x / m))"

text \<open>
  \<open>fontWeight\<close>: \<open>z.number().int().min(100, ..).max(900, ..).refine(v => v % 100 === 0, ..)\<close>.
\<close>

definition fontWeightChecks :: "((real \<Rightarrow> bool) \<times> issueMessage) list" where
  "fontWeightChecks =
     [(isInteger, NotInteger),
      (\<lambda>x. x \<ge> 100, Message ''fontWeight minimum is 100''),
      (\<lambda>x. x \<le> 900, Message ''fontWeight maximum is 900'')]"

definition fontWeightSchema :: "string list \<Rightarrow> json \<Rightarrow> parsed" where
  "fontWeightSchema p v =
     (let inner = parseNumber fontWeightChecks p v
      in case v of
           JNum x \<Rightarrow>
             if jsRem x 100 = 0 then inner
             else (fst inner, snd inner @ [(p, Message ''fontWeight must be a multiple of 100'')])
         | _ \<Rightarrow> inner)"

definition typographyToken :: "string list \<Rightarrow> json \<Rightarrow> parsed" where
  "typographyToken p v =
     (case v of
        JObj props \<Rightarrow>
          mergeParsed
            [parseOptional parseString (p @ [''fontFamily'']) (map_of props ''fontFamily''),
             parseRequired (parseNumber [(\<lambda>x. x > 0, Message ''fontSize must be positive'')])
               (p @ [''fontSize'']) (map_of props ''fontSize''),
             parseOptional (parseNumber [(\<lambda>x. x > 0, Message ''lineHeight must be positive'')])
               (p @ [''lineHeight'']) (map_of props ''lineHeight''),
             parseOptional fontWeightSchema (p @ [''fontWeight'']) (map_of props ''fontWeight''),
             parseOptional (parseNumber []) (p @ [''letterSpacing'']) (map_of props ''letterSpacing'')]
      | _ \<Rightarrow> invalidType p)"

definition shadowOffsetSchema :: "string list \<Rightarrow> json \<Rightarrow> parsed" where
  "shadowOffsetSchema p v =
     (case v of
        JObj props \<Rightarrow>
          mergeParsed
            [parseRequired (parseNumber []) (p @ [''x'']) (map_of props ''x''),
             parseRequired (parseNumber []) (p @ [''y'']) (map_of props ''y'')]
      | _ \<Rightarrow> invalidType p)"

definition elevationToken :: "string list \<Rightarrow> json \<Rightarrow> parsed" where
  "elevationToken p v =
     (case v of
        JObj props \<Rightarrow>
          mergeParsed
            [parseRequired hexColorSchema (p @ [''shadowColor'']) (map_of props ''shadowColor''),
             parseRequired shadowOffsetSchema (p @ [''shadowOffset'']) (map_of props ''shadowOffset''),
             parseRequired (parseNumber [(\<lambda>x. x \<ge> 0, Message ''shadowRadius cannot be negative'')])
               (p @ [''shadowRadius'']) (map_of props ''shadowRadius''),
             parseRequired (parseNumber [(\<lambda>x. x \<ge> 0, Message ''shadowOpacity minimum is 0''),
                                         (\<lambda>x. x \<le> 1, Message ''shadowOpacity maximum is 1'')])
               (p @ [''shadowOpacity'']) (map_of props ''shadowOpacity'')]
      | _ \<Rightarrow> invalidType p)"

definition motionToken :: "string list \<Rightarrow> json \<Rightarrow> parsed" where
  "motionToken p v =
     (case v of
        JObj props \<Rightarrow>
          mergeParsed
            [parseRequired (parseNumber [(\<lambda>x. x > 0, Message ''duration must be positive'')])
               (p @ [''duration'']) (map_of props ''duration''),
             parseRequired (parseNonEmptyString ''easing cannot be empty'')
               (p @ [''easing'']) (map_of props ''easing'')]
      | _ \<Rightarrow> invalidType p)"

text \<open>The object of six optional records, before the refinement.\<close>

definition designTokensObject :: "json \<Rightarrow> parsed" where
  "designTokensObject v =
     (case v of
        JObj props \<Rightarrow>
          mergeParsed
            [parseOptional (parseRecord colorToken) [''colors''] (map_of props ''colors''),
             parseOptional (parseRecord typographyToken) [''typography''] (map_of props ''typography''),
             parseOptional (parseRecord (parseNumber [(\<lambda>x. x \<ge> 0, Message ''spacing cannot be negative'')]))
               [''spacing''] (map_of props ''spacing''),
             parseOptional (parseRecord (parseNumber [(\<lambda>x. x \<ge> 0, Message ''radii cannot be negative'')]))
               [''radii''] (map_of props ''radii''),
             parseOptional (parseRecord elevationToken) [''elevation''] (map_of props ''elevation''),
             parseOptional (parseRecord motionToken) [''motion''] (map_of props ''motion'')]
      | _ \<Rightarrow> invalidType [])"

definition collectionNames :: "string list" where
  "collectionNames = [''colors'', ''typography'', ''spacing'', ''radii'', ''elevation'', ''motion'']"

text \<open>The refinement: some collection is not \<open>undefined\<close>.\<close>

definition hasCategory :: "json \<Rightarrow> bool" where
  "hasCategory v =
     (case v of
        JObj props \<Rightarrow>
          map_of props ''colors'' \<noteq> None \<or> map_of props ''typography'' \<noteq> None \<or>
          map_of props ''spacing'' \<noteq> None \<or> map_of props ''radii'' \<noteq> None \<or>
          map_of props ''elevation'' \<noteq> None \<or> map_of props ''motion'' \<noteq> None
      | _ \<Rightarrow> False)"

definition designTokensSchema :: "json \<Rightarrow> parsed" where
  "designTokensSchema v =
     (let inner = designTokensObject v
      in if fst inner then inner
         else if hasCategory v then inner
         else (fst inner,
               snd inner @ [([], Message ''Token object must contain at least one token category'')]))"

text \<open>
  \<open>validateTokens\<close>: the result of \<open>safeParse\<close> with each issue rendered as its path,
  joined by dots (\<open>(root)\<close> for the empty path), and its message. The parsed data that
  accompany a valid result are not part of the model.
\<close>

fun joinDots :: "string list \<Rightarrow> string" where
  "joinDots [] = []"
| "joinDots [s] = s"
| "joinDots (s # t # ss) = s @ ''.'' @ joinDots (t # ss)"

definition formatIssue :: "issue \<Rightarrow> string \<times> issueMessage" where
  "formatIssue i = (if length (fst i) > 0 then joinDots (fst i) else ''(root)'', snd i)"

record ValidationResult =
  valid :: bool
  errors :: "(string \<times> issueMessage) list option"

definition validateTokens :: "json \<Rightarrow> ValidationResult" where
  "validateTokens input =
     (let r = designTokensSchema input
      in if snd r = [] then \<lparr>valid = True, errors = None\<rparr>
         else \<lparr>valid = False, errors = Some (map formatIssue (snd r))\<rparr>)"

text \<open>Token sets used below.\<close>

definition emptyColorsInput :: json where
  "emptyColorsInput = JObj [(''colors'', JObj [])]"

definition emptyCollectionsInput :: json where
  "emptyCollectionsInput = JObj [(''spacing'', JObj []), (''radii'', JObj [])]"

definition weightInput :: "real \<Rightarrow> json" where
  "weightInput w =
     JObj [(''typography'',
            JObj [(''heading'', JObj [(''fontSize'', JNum 16), (''fontWeight'', JNum w)])])]"


section \<open>CSS extractor: \<open>parseCustomProperties\<close>\<close>

subsection \<open>Removing comments\<close>

text \<open>
  \<open>css.replace(/\/\*[\s\S]*?\*\//g, "")\<close>: from each \<open>/*\<close> up to the first \<open>*/\<close> that
  follows it. A \<open>/*\<close> with no \<open>*/\<close> after it is no match and stays in the text.
\<close>

fun afterCommentEnd :: "string \<Rightarrow> string option" where
  "afterCommentEnd (c # d # cs) =
     (if c = CHR ''*'' \<and> d = CHR ''/'' then Some cs else afterCommentEnd (d # cs))"
| "afterCommentEnd cs = None"

function stripComments :: "string \<Rightarrow> string" where
  "stripComments [] = []"
| "stripComments (c # cs) =
     (if c = CHR ''/'' \<and> startsWith cs ''*''
      then (case afterCommentEnd (drop 1 cs) of
              Some rest \<Rightarrow> stripComments rest
            | None \<Rightarrow> c # stripComments cs)
      else c # stripComments cs)"
  by pat_completeness auto
termination
proof (relation "measure length")
  have shorter: "afterCommentEnd s = Some r \<Longrightarrow> length r < length s" for s r
    by (induction s rule: afterCommentEnd.induct) (auto split: if_splits)
  show "wf (measure length)"
    by simp
  show "(rest, c # cs) \<in> measure length"
    if "c = CHR ''/'' \<and> startsWith cs ''*''" and "afterCommentEnd (drop 1 cs) = Some rest"
    for c cs rest
    using shorter[OF that(2)] by (cases cs) auto
  show "(cs, c # cs) \<in> measure length" for c :: char and cs
    by simp
  show "(cs, c # cs) \<in> measure length" for c :: char and cs
    by simp
qed

subsection \<open>Matching one declaration\<close>

text \<open>
  \<open>/(--[\w-]+)\s*:\s*([^;]+);/\<close> tried at the start of a text. The name is the longest
  run of \<open>[\w-]\<close> after \<open>--\<close> and the white space before the colon is taken whole:
  giving a character back never helps, because the character that would follow is
  neither white space nor a colon. After the colon, \<open>\s*\<close> takes all the white space
  and \<open>[^;]+\<close> everything up to the next semicolon; when the semicolon follows the
  white space at once, \<open>\s*\<close> gives its last character back and that character is the
  value. Without a semicolon there is no match.
\<close>

definition isWordChar :: "char \<Rightarrow> bool" where
  "isWordChar c = (isDigit c \<or> isLower c \<or> isUpper c \<or> c = CHR ''_'')"

definition isNameChar :: "char \<Rightarrow> bool" where
  "isNameChar c = (isWordChar c \<or> c = CHR ''-'')"

definition notSemicolon :: "char \<Rightarrow> bool" where
  "notSemicolon c = (c \<noteq> CHR '';'')"

text \<open>The part after the colon: the captured value and the text after the semicolon.\<close>

definition matchValue :: "string \<Rightarrow> (string \<times> string) option" where
  "matchValue s =
     (let ws = takeWhile isSpace s; s1 = dropWhile isSpace s
      in case s1 of
           [] \<Rightarrow> None
         | c # rest \<Rightarrow>
             if c = CHR '';''
             then (if ws = [] then None else Some ([last ws], rest))
             else (case dropWhile notSemicolon s1 of
                     [] \<Rightarrow> None
                   | semi # after \<Rightarrow> Some (takeWhile notSemicolon s1, after)))"

text \<open>The whole pattern: the two captures and the text after the match.\<close>

definition matchDeclaration :: "string \<Rightarrow> (string \<times> string \<times> string) option" where
  "matchDeclaration s =
     (if startsWith s ''--''
      then (let s1 = drop 2 s; n = takeWhile isNameChar s1;
                s2 = dropWhile isSpace (dropWhile isNameChar s1)
            in if n = [] then None
               else (case s2 of
                       [] \<Rightarrow> None
                     | c # s3 \<Rightarrow>
                         if c = CHR '':''
                         then (case matchValue s3 of
                                 None \<Rightarrow> None
                               | Some (v, rest) \<Rightarrow> Some (''--'' @ n, v, rest))
                         else None))
      else None)"

text \<open>\<open>s.trim()\<close>\<close>

definition trim :: "string \<Rightarrow> string" where
  "trim s = rev (dropWhile isSpace (rev (dropWhile isSpace s)))"

subsection \<open>The \<open>exec\<close> loop\<close>

text \<open>
  Successive \<open>propRegex.exec(cleaned)\<close>: the leftmost match from the current position,
  then on from the end of that match. The result lists, in textual order, the trimmed
  name and value of every declaration found.
\<close>

function scanDeclarations :: "string \<Rightarrow> (string \<times> string) list" where
  "scanDeclarations [] = []"
| "scanDeclarations (c # cs) =
     (case matchDeclaration (c # cs) of
        Some (n, v, rest) \<Rightarrow> (trim n, trim v) # scanDeclarations rest
      | None \<Rightarrow> scanDeclarations cs)"
  by pat_completeness auto
termination
proof -
  have dw: "dropWhile P xs = y # ys \<Longrightarrow> length ys < length xs"
    for P and xs ys :: string and y
    using length_dropWhile_le[of P xs] by simp
  have mv: "length r < length s" if a: "matchValue s = Some (v, r)" for s v r
  proof (cases "dropWhile isSpace s")
    case Nil
    with a show ?thesis by (simp add: matchValue_def)
  next
    case (Cons c rest)
    note c1 = dw[OF Cons]
    show ?thesis
    proof (cases "c = CHR '';''")
      case True
      with a Cons c1 show ?thesis
        by (auto simp: matchValue_def Let_def split: if_splits)
    next
      case False
      show ?thesis
      proof (cases "dropWhile notSemicolon (c # rest)")
        case Nil
        with a Cons False show ?thesis by (simp add: matchValue_def Let_def)
      next
        case (Cons semi after)
        from dw[OF Cons] have "length after < Suc (length rest)" by simp
        with a \<open>dropWhile isSpace s = c # rest\<close> False Cons c1 show ?thesis
          by (auto simp: matchValue_def Let_def)
      qed
    qed
  qed
  have md: "length r < length s" if a: "matchDeclaration s = Some (n, v, r)" for s n v r
  proof -
    from a have st: "startsWith s ''--''"
      by (auto simp: matchDeclaration_def split: if_splits)
    show ?thesis
    proof (cases "dropWhile isSpace (dropWhile isNameChar (drop 2 s))")
      case Nil
      from a st show ?thesis
        unfolding matchDeclaration_def Let_def Nil by (simp split: if_splits)
    next
      case (Cons c s3)
      from dw[OF Cons] length_dropWhile_le[of isNameChar "drop 2 s"]
      have l3: "length s3 < length s" by simp
      from a st have "matchValue s3 = Some (v, r)"
        unfolding matchDeclaration_def Let_def Cons
        by (simp split: if_splits option.splits)
      from mv[OF this] l3 show ?thesis by simp
    qed
  qed
  show ?thesis
    by (relation "measure length") (auto dest: md)
qed

text \<open>
  \<open>if (!vars.has(name)) vars.set(name, value)\<close> on a \<open>Map\<close>, which keeps its entries
  in insertion order.
\<close>

definition setIfAbsent :: "string dict \<Rightarrow> string \<times> string \<Rightarrow> string dict" where
  "setIfAbsent vars decl =
     (if dictGet vars (fst decl) = None then vars @ [decl] else vars)"

definition parseCustomProperties :: "string \<Rightarrow> string dict" where
  "parseCustomProperties css = foldl setIfAbsent [] (scanDeclarations (stripComments css))"

text \<open>A style sheet that declares the same property for light and dark.\<close>

definition lightDarkCss :: string where
  "lightDarkCss =
     '':root { --color-primary: #6750A4; /* brand */ --space-md: 16px; } '' @
     ''[data-theme=dark] { --color-primary: #D0BCFF; }''"


section \<open>Tailwind extractor (\<open>extractTokensFromTailwind\<close>)\<close>

subsection \<open>Regular expressions\<close>

text \<open>
  The patterns of this extractor are matched by a backtracking matcher that lists, in
  the order JavaScript tries them, the ways a pattern can match at the start of a text:
  each is the text left over and the groups captured on the way. Quantifiers are greedy
  and an iteration of \<open>*\<close> that consumes nothing is not repeated.
\<close>

datatype rx =
  Cls "char \<Rightarrow> bool"
| Eps
| Seq rx rx
| Alt rx rx
| Star rx
| Grp nat rx

type_synonym rxState = "string \<times> (nat \<times> string) list"

function matches :: "rx \<Rightarrow> rxState \<Rightarrow> rxState list" where
  "matches (Cls p) (s, caps) = (case s of [] \<Rightarrow> [] | x # xs \<Rightarrow> if p x then [(xs, caps)] else [])"
| "matches Eps st = [st]"
| "matches (Seq a b) st = concat (map (matches b) (matches a st))"
| "matches (Alt a b) st = matches a st @ matches b st"
| "matches (Star r) (s, caps) =
     concat (map (\<lambda>st'. if length (fst st') < length s then matches (Star r) st' else [])
               (matches r (s, caps)))
     @ [(s, caps)]"
| "matches (Grp n r) (s, caps) =
     map (\<lambda>st'. (fst st', (n, take (length s - length (fst st')) s) # snd st'))
       (matches r (s, caps))"
  by pat_completeness auto
termination
  by (relation "inv_image (less_than <*lex*> less_than) (\<lambda>(r, st). (size r, length (fst st)))")
     auto

definition lit :: "string \<Rightarrow> rx" where
  "lit s = foldr (\<lambda>c r. Seq (Cls (\<lambda>x. x = c)) r) s Eps"

definition opt :: "rx \<Rightarrow> rx" where
  "opt r = Alt r Eps"

definition plus :: "rx \<Rightarrow> rx" where
  "plus r = Seq r (Star r)"

definition seqs :: "rx list \<Rightarrow> rx" where
  "seqs rs = foldr Seq rs Eps"

text \<open>\<open>s.match(r)\<close> for a pattern without anchors: the first way of the leftmost start.\<close>

fun searchFrom :: "rx \<Rightarrow> string \<Rightarrow> (nat \<times> string) list option" where
  "searchFrom r [] = (case matches r ([], []) of [] \<Rightarrow> None | st # _ \<Rightarrow> Some (snd st))"
| "searchFrom r (c # cs) =
     (case matches r (c # cs, []) of [] \<Rightarrow> searchFrom r cs | st # _ \<Rightarrow> Some (snd st))"

text \<open>\<open>s.match(/^r$/)\<close>: the first way that uses the whole text.\<close>

definition fullMatch :: "rx \<Rightarrow> string \<Rightarrow> (nat \<times> string) list option" where
  "fullMatch r s = map_option snd (find (\<lambda>st. fst st = []) (matches r (s, [])))"

text \<open>A captured group, \<open>undefined\<close> when the group took no part in the match.\<close>

definition group :: "(nat \<times> string) list \<Rightarrow> nat \<Rightarrow> string option" where
  "group caps n = map_of caps n"

definition spaceRx :: rx where
  "spaceRx = Cls isSpace"

definition digitRx :: rx where
  "digitRx = Cls isDigit"

text \<open>\<open>-?\d+(?:\.\d+)?\<close>\<close>

definition numberRx :: rx where
  "numberRx = seqs [opt (lit ''-''), plus digitRx, opt (seqs [lit ''.'', plus digitRx])]"

subsection \<open>Numbers in text\<close>

text \<open>
  \<open>parseFloat\<close> on the texts this extractor gives it, which consist of a sign, digits
  and dots: the longest prefix that is a decimal number, \<open>NaN\<close> when there is none.
\<close>

definition parseFloat :: "string \<Rightarrow> real option" where
  "parseFloat s =
     (let neg = startsWith s ''-'';
          s1 = (if startsWith s ''-'' \<or> startsWith s ''+'' then drop 1 s else s);
          ip = takeWhile isDigit s1;
          s2 = dropWhile isDigit s1;
          fp = (if startsWith s2 ''.'' then takeWhile isDigit (drop 1 s2) else []);
          magnitude = real (digitsValue ip) + real (digitsValue fp) / 10 ^ length fp
      in if ip = [] \<and> fp = [] then None
         else Some (if neg then - magnitude else magnitude))"

text \<open>\<open>parseInt(s, 10)\<close>: white space, a sign, then the longest run of digits.\<close>

definition parseInt10 :: "string \<Rightarrow> real option" where
  "parseInt10 str =
     (let s = dropWhile isSpace str;
          neg = startsWith s ''-'';
          s1 = (if startsWith s ''-'' \<or> startsWith s ''+'' then drop 1 s else s);
          z = takeWhile isDigit s1
      in if z = [] then None
         else Some (if neg then - real (digitsValue z) else real (digitsValue z)))"

text \<open>The decimal text of a natural number (an array index used as a key).\<close>

fun natToDec :: "nat \<Rightarrow> string" where
  "natToDec n = (if n < 10 then [char_of (48 + n)] else natToDec (n div 10) @ [char_of (48 + n mod 10)])"

subsection \<open>JavaScript values\<close>

text \<open>
  Property access (\<open>undefined\<close> is \<^term>\<open>None\<close>), truthiness, \<open>Object.entries\<close> and
  \<open>String(v)\<close>. The text JavaScript gives a number is not determined by the source; it
  is the parameter \<open>numberToString\<close>.
\<close>

definition getProp :: "json \<Rightarrow> string \<Rightarrow> json option" where
  "getProp v k = (case v of JObj props \<Rightarrow> map_of props k | _ \<Rightarrow> None)"

definition truthy :: "json \<Rightarrow> bool" where
  "truthy v =
     (case v of
        JNull \<Rightarrow> False
      | JBool b \<Rightarrow> b
      | JNum x \<Rightarrow> x \<noteq> 0
      | JStr s \<Rightarrow> s \<noteq> []
      | _ \<Rightarrow> True)"

text \<open>\<open>v && typeof v === "object"\<close>\<close>

definition isObject :: "json \<Rightarrow> bool" where
  "isObject v = (case v of JObj props \<Rightarrow> True | JArr xs \<Rightarrow> True | _ \<Rightarrow> False)"

definition jsonEntries :: "json \<Rightarrow> (string \<times> json) list" where
  "jsonEntries v =
     (case v of
        JObj props \<Rightarrow> props
      | JArr xs \<Rightarrow> zip (map natToDec [0..<length xs]) xs
      | _ \<Rightarrow> [])"

fun joinCommas :: "string list \<Rightarrow> string" where
  "joinCommas [] = []"
| "joinCommas [s] = s"
| "joinCommas (s # t # ss) = s @ '','' @ joinCommas (t # ss)"

fun jsString :: "(real \<Rightarrow> string) \<Rightarrow> json \<Rightarrow> string" where
  "jsString numberToString JNull = ''null''"
| "jsString numberToString (JBool b) = (if b then ''true'' else ''false'')"
| "jsString numberToString (JNum x) = numberToString x"
| "jsString numberToString (JStr s) = s"
| "jsString numberToString (JArr xs) =
     joinCommas (map (\<lambda>x. if x = JNull then [] else jsString numberToString x) xs)"
| "jsString numberToString (JObj props) = ''[object Object]''"

text \<open>\<open>String(value[0])\<close>, where \<open>value[0]\<close> is \<open>undefined\<close> on an empty array.\<close>

definition jsStringOpt :: "(real \<Rightarrow> string) \<Rightarrow> json option \<Rightarrow> string" where
  "jsStringOpt numberToString v =
     (case v of None \<Rightarrow> ''undefined'' | Some x \<Rightarrow> jsString numberToString x)"

definition element :: "json list \<Rightarrow> nat \<Rightarrow> json option" where
  "element xs i = (if i < length xs then Some (xs ! i) else None)"

subsection \<open>\<open>parseToPixels\<close>\<close>

text \<open>\<open>/^(-?\d+(?:\.\d+)?)\s*(px|rem|em)?$/\<close>\<close>

definition pixelsRx :: rx where
  "pixelsRx =
     seqs [Grp 1 numberRx, Star spaceRx,
           opt (Grp 2 (Alt (lit ''px'') (Alt (lit ''rem'') (lit ''em''))))]"

definition parseToPixels :: "string \<Rightarrow> real option" where
  "parseToPixels v =
     (case fullMatch pixelsRx v of
        None \<Rightarrow> None
      | Some caps \<Rightarrow>
          (case group caps 1 of
             None \<Rightarrow> None
           | Some numText \<Rightarrow>
               (case parseFloat numText of
                  None \<Rightarrow> None
                | Some num \<Rightarrow>
                    (let unit = (case group caps 2 of None \<Rightarrow> ''px'' | Some u \<Rightarrow> u)
                     in if unit = ''px'' then Some num
                        else if unit = ''rem'' \<or> unit = ''em'' then Some (num * 16)
                        else None))))"

subsection \<open>\<open>isHexLike\<close> and \<open>normalizeToHex\<close>\<close>

definition isHexLike :: "string \<Rightarrow> bool" where
  "isHexLike v = hexPattern 3 8 v"

definition normalizeToHex :: "string \<Rightarrow> string" where
  "normalizeToHex v =
     (if hexPattern 3 3 v
      then (let r = v ! 1; g = v ! 2; b = v ! 3
            in toUpperCase [CHR ''#'', r, r, g, g, b, b])
      else toUpperCase v)"

subsection \<open>\<open>parseShadow\<close>\<close>

text \<open>
  The shadow pattern: three lengths, an optional fourth, and a colour that is an
  \<open>rgb(..)\<close>/\<open>rgba(..)\<close> call or a \<open>#\<close> with hex digits; groups 1, 2, 3 and 5 are used.
\<close>

definition pxRx :: rx where
  "pxRx = opt (lit ''px'')"

definition shadowRx :: rx where
  "shadowRx =
     seqs [Grp 1 numberRx, Star spaceRx, pxRx, plus spaceRx,
           Grp 2 numberRx, Star spaceRx, pxRx, plus spaceRx,
           Grp 3 numberRx, Star spaceRx, pxRx,
           opt (seqs [plus spaceRx, Grp 4 numberRx, Star spaceRx, pxRx]),
           plus spaceRx,
           Grp 5 (Alt (seqs [lit ''rgb'', opt (lit ''a''), lit ''('',
                             plus (Cls (\<lambda>c. c \<noteq> CHR '')'')), lit '')''])
                      (seqs [lit ''#'', plus (Cls isHexDigit)]))]"

text \<open>\<open>/rgba?\(\s*(\d+)\s*,\s*(\d+)\s*,\s*(\d+)\s*(?:,\s*([\d.]+))?\)/\<close>\<close>

definition rgbaRx :: rx where
  "rgbaRx =
     seqs [lit ''rgb'', opt (lit ''a''), lit ''('', Star spaceRx,
           Grp 1 (plus digitRx), Star spaceRx, lit '','', Star spaceRx,
           Grp 2 (plus digitRx), Star spaceRx, lit '','', Star spaceRx,
           Grp 3 (plus digitRx), Star spaceRx,
           opt (seqs [lit '','', Star spaceRx, Grp 4 (plus (Cls (\<lambda>c. isDigit c \<or> c = CHR ''.'')))]),
           lit '')'']"

text \<open>\<open>parseInt(d).toString(16).padStart(2, "0")\<close> for a text of digits.\<close>

definition decToHex2 :: "string \<Rightarrow> string" where
  "decToHex2 d = padStart2 (natToHex (digitsValue d))"

text \<open>The colour and opacity of a shadow from the colour text.\<close>

definition shadowColorOf :: "string \<Rightarrow> string \<times> real option" where
  "shadowColorOf colorStr =
     (if startsWith colorStr ''rgba''
      then (case searchFrom rgbaRx colorStr of
              None \<Rightarrow> (''#000000'', Some 1)
            | Some caps \<Rightarrow>
                (case (group caps 1, group caps 2, group caps 3) of
                   (Some r, Some g, Some b) \<Rightarrow>
                     (toUpperCase (''#'' @ decToHex2 r @ decToHex2 g @ decToHex2 b),
                      (case group caps 4 of None \<Rightarrow> Some 1 | Some a \<Rightarrow> parseFloat a))
                 | _ \<Rightarrow> (''#000000'', Some 1)))
      else if startsWith colorStr ''#''
      then (let upper = toUpperCase colorStr
            in if length upper = 9
               then (slice 0 7 upper,
                     map_option (\<lambda>n. real_of_int (mathRound (n / 255 * 100)) / 100)
                       (parseInt16 (slice 7 9 upper)))
               else (upper, Some 1))
      else (''#000000'', Some 1))"

definition parseShadow :: "string \<Rightarrow> ElevationToken option" where
  "parseShadow shadow =
     (case searchFrom shadowRx shadow of
        None \<Rightarrow> None
      | Some caps \<Rightarrow>
          (case (group caps 1, group caps 2, group caps 3, group caps 5) of
             (Some xt, Some yt, Some bt, Some colorStr) \<Rightarrow>
               (case (parseFloat xt, parseFloat yt, parseFloat bt) of
                  (Some x, Some y, Some blur) \<Rightarrow>
                    Some \<lparr>shadowColor = fst (shadowColorOf colorStr),
                          shadowOffsetX = x, shadowOffsetY = y, shadowRadius = blur,
                          shadowOpacity = snd (shadowColorOf colorStr)\<rparr>
                | _ \<Rightarrow> None)
           | _ \<Rightarrow> None))"

subsection \<open>The collections\<close>

text \<open>\<open>Object.assign(result, sub)\<close>\<close>

definition assignAll :: "'a dict \<Rightarrow> 'a dict \<Rightarrow> 'a dict" where
  "assignAll result sub = foldl (\<lambda>r (k, v). dictSet r k v) result sub"

definition colorName :: "string \<Rightarrow> string \<Rightarrow> string" where
  "colorName prefix key = (if prefix \<noteq> [] then prefix @ ''-'' @ key else key)"

text \<open>
  \<open>extractColors\<close>: \<open>colorsOfValue\<close> is what one entry adds under its name, a hex
  string itself and a nested object (or array) its own colours; \<open>colorsOfEntries\<close> and
  \<open>colorsOfItems\<close> are the loop over the entries of an object and of an array.
\<close>

fun colorsOfValue :: "string \<Rightarrow> json \<Rightarrow> ColorToken dict"
  and colorsOfEntries :: "string \<Rightarrow> (string \<times> json) list \<Rightarrow> ColorToken dict \<Rightarrow> ColorToken dict"
  and colorsOfItems :: "string \<Rightarrow> nat \<Rightarrow> json list \<Rightarrow> ColorToken dict \<Rightarrow> ColorToken dict" where
  "colorsOfValue n (JStr s) =
     (if isHexLike s then [(n, \<lparr>value = normalizeToHex s, description = None, category = None\<rparr>)]
      else [])"
| "colorsOfValue n (JObj props) = colorsOfEntries n props []"
| "colorsOfValue n (JArr xs) = colorsOfItems n 0 xs []"
| "colorsOfValue n JNull = []"
| "colorsOfValue n (JBool b) = []"
| "colorsOfValue n (JNum x) = []"
| "colorsOfEntries prefix [] result = result"
| "colorsOfEntries prefix (e # es) result =
     colorsOfEntries prefix es
       (assignAll result (colorsOfValue (colorName prefix (fst e)) (snd e)))"
| "colorsOfItems prefix i [] result = result"
| "colorsOfItems prefix i (x # xs) result =
     colorsOfItems prefix (Suc i) xs
       (assignAll result (colorsOfValue (colorName prefix (natToDec i)) x))"

definition extractColors :: "json \<Rightarrow> ColorToken dict" where
  "extractColors obj = colorsOfValue [] obj"

text \<open>
  \<open>parseToPixels\<close> applied to an option that is truthy: a text is parsed, any other
  value has no \<open>match\<close> method and the call throws.
\<close>

definition typeErrorMessage :: string where
  "typeErrorMessage = ''TypeError: value.match is not a function''"

definition parseOption :: "json option \<Rightarrow> real option result" where
  "parseOption v =
     (case v of
        None \<Rightarrow> Inr None
      | Some x \<Rightarrow>
          if \<not> truthy x then Inr None
          else (case x of JStr s \<Rightarrow> Inr (parseToPixels s) | _ \<Rightarrow> Inl typeErrorMessage))"

definition parseWeightOption :: "(real \<Rightarrow> string) \<Rightarrow> json option \<Rightarrow> real option" where
  "parseWeightOption numberToString v =
     (case v of
        None \<Rightarrow> None
      | Some x \<Rightarrow> if \<not> truthy x then None else parseInt10 (jsString numberToString x))"

definition sizeToken :: "real \<Rightarrow> TypographyToken" where
  "sizeToken px = \<lparr>fontFamily = None, fontSize = px, lineHeight = None, fontWeight = None,
     letterSpacing = None\<rparr>"

text \<open>The token of one \<open>fontSize\<close> entry; \<^term>\<open>Inr None\<close> when the entry is skipped.\<close>

definition typographyOfValue :: "(real \<Rightarrow> string) \<Rightarrow> json \<Rightarrow> TypographyToken option result" where
  "typographyOfValue numberToString v =
     (case v of
        JStr s \<Rightarrow> Inr (map_option sizeToken (parseToPixels s))
      | JArr xs \<Rightarrow>
          (case parseToPixels (jsStringOpt numberToString (element xs 0)) of
             None \<Rightarrow> Inr None
           | Some px \<Rightarrow>
               (case element xs 1 of
                  Some (JStr s) \<Rightarrow> Inr (Some ((sizeToken px)\<lparr>lineHeight := parseToPixels s\<rparr>))
                | Some opts \<Rightarrow>
                    if isObject opts
                    then (case parseOption (getProp opts ''lineHeight'') of
                            Inl e \<Rightarrow> Inl e
                          | Inr lh \<Rightarrow>
                              (case parseOption (getProp opts ''letterSpacing'') of
                                 Inl e \<Rightarrow> Inl e
                               | Inr ls \<Rightarrow>
                                   Inr (Some ((sizeToken px)
                                     \<lparr>lineHeight := lh, letterSpacing := ls,
                                      fontWeight :=
                                        parseWeightOption numberToString (getProp opts ''fontWeight'')\<rparr>))))
                    else Inr (Some (sizeToken px))
                | None \<Rightarrow> Inr (Some (sizeToken px))))
      | _ \<Rightarrow> Inr None)"

fun typographyLoop ::
  "(real \<Rightarrow> string) \<Rightarrow> (string \<times> json) list \<Rightarrow> TypographyToken dict \<Rightarrow> TypographyToken dict result" where
  "typographyLoop numberToString [] result = Inr result"
| "typographyLoop numberToString (e # es) result =
     (case typographyOfValue numberToString (snd e) of
        Inl err \<Rightarrow> Inl err
      | Inr None \<Rightarrow> typographyLoop numberToString es result
      | Inr (Some token) \<Rightarrow> typographyLoop numberToString es (dictSet result (fst e) token))"

definition extractTypography :: "(real \<Rightarrow> string) \<Rightarrow> json \<Rightarrow> TypographyToken dict result" where
  "extractTypography numberToString fontSizeObj = typographyLoop numberToString (jsonEntries fontSizeObj) []"

text \<open>The loop over \<open>fontFamily\<close>: a token \<open>font-<name>\<close> of size 16 for each entry.\<close>

definition familyOf :: "(real \<Rightarrow> string) \<Rightarrow> json \<Rightarrow> json option" where
  "familyOf numberToString v =
     (case v of JArr xs \<Rightarrow> element xs 0 | _ \<Rightarrow> Some (JStr (jsString numberToString v)))"

definition addFontFamilies ::
  "(real \<Rightarrow> string) \<Rightarrow> json \<Rightarrow> TypographyToken dict \<Rightarrow> TypographyToken dict" where
  "addFontFamilies numberToString fontFamilyObj typo =
     foldl (\<lambda>r (n, v). dictSet r (''font-'' @ n)
              ((sizeToken 16)\<lparr>fontFamily := familyOf numberToString v\<rparr>))
       typo (jsonEntries fontFamilyObj)"

definition numericOfValue :: "json \<Rightarrow> real option" where
  "numericOfValue v = (case v of JNum x \<Rightarrow> Some x | JStr s \<Rightarrow> parseToPixels s | _ \<Rightarrow> None)"

definition extractNumericMap :: "json \<Rightarrow> real dict" where
  "extractNumericMap obj =
     foldl (\<lambda>r (k, v). case numericOfValue v of None \<Rightarrow> r | Some px \<Rightarrow> dictSet r k px)
       [] (jsonEntries obj)"

definition elevationOfValue :: "json \<Rightarrow> ElevationToken option" where
  "elevationOfValue v = (case v of JStr s \<Rightarrow> parseShadow s | _ \<Rightarrow> None)"

definition extractElevation :: "json \<Rightarrow> ElevationToken dict" where
  "extractElevation boxShadow =
     foldl (\<lambda>r (k, v). case elevationOfValue v of None \<Rightarrow> r | Some parsed \<Rightarrow> dictSet r k parsed)
       [] (jsonEntries boxShadow)"

subsection \<open>Choosing between \<open>theme.extend\<close> and \<open>theme\<close>\<close>

text \<open>\<open>themeObj.extend?.X\<close>: undefined when \<open>extend\<close> is undefined or null.\<close>

definition extendSection :: "json \<Rightarrow> string \<Rightarrow> json option" where
  "extendSection themeObj x =
     (case getProp themeObj ''extend'' of
        None \<Rightarrow> None
      | Some ext \<Rightarrow> if ext = JNull then None else getProp ext x)"

text \<open>\<open>themeObj.extend?.X ?? themeObj.X\<close>: the right side when the left is undefined or null.\<close>

definition sectionOf :: "json \<Rightarrow> string \<Rightarrow> json option" where
  "sectionOf themeObj x =
     (case extendSection themeObj x of
        None \<Rightarrow> getProp themeObj x
      | Some v \<Rightarrow> if v = JNull then getProp themeObj x else Some v)"

text \<open>\<open>if (section && typeof section === "object")\<close>\<close>

definition objectSection :: "json \<Rightarrow> string \<Rightarrow> json option" where
  "objectSection themeObj x =
     (case sectionOf themeObj x of
        None \<Rightarrow> None
      | Some v \<Rightarrow> if isObject v then Some v else None)"

subsection \<open>The extraction\<close>

text \<open>The typography collection from the \<open>fontSize\<close> and \<open>fontFamily\<close> sections.\<close>

definition typographyOf ::
  "(real \<Rightarrow> string) \<Rightarrow> json option \<Rightarrow> json option \<Rightarrow> TypographyToken dict option result" where
  "typographyOf numberToString fontSizeSec fontFamilySec =
     (case (case fontSizeSec of
              None \<Rightarrow> Inr None
            | Some fs \<Rightarrow> map_sum id Some (extractTypography numberToString fs)) of
        Inl e \<Rightarrow> Inl e
      | Inr typo \<Rightarrow>
          (case fontFamilySec of
             None \<Rightarrow> Inr typo
           | Some ff \<Rightarrow>
               Inr (Some (addFontFamilies numberToString ff
                            (case typo of None \<Rightarrow> [] | Some t \<Rightarrow> t)))))"

text \<open>
  \<open>extractTokensFromTailwind\<close> from the theme object that \<open>extractThemeObject\<close>
  returns (\<^term>\<open>None\<close> for \<open>null\<close>); the recovery of that object from the text of the
  configuration is not part of the model.
\<close>

definition extractTokensFromTheme :: "(real \<Rightarrow> string) \<Rightarrow> json option \<Rightarrow> DesignTokens result" where
  "extractTokensFromTheme numberToString themeObj =
     (case themeObj of
        None \<Rightarrow>
          Inl (''Could not extract theme from Tailwind config. '' @
               ''Ensure the config exports a theme or theme.extend object.'')
      | Some t \<Rightarrow>
          if \<not> truthy t
          then Inl (''Could not extract theme from Tailwind config. '' @
                    ''Ensure the config exports a theme or theme.extend object.'')
          else
            (case typographyOf numberToString (objectSection t ''fontSize'')
                    (objectSection t ''fontFamily'') of
               Inl e \<Rightarrow> Inl e
             | Inr typo \<Rightarrow>
                 (let tokens =
                        \<lparr>colors = map_option extractColors (objectSection t ''colors''),
                         typography = typo,
                         spacing = map_option extractNumericMap (objectSection t ''spacing''),
                         radii = map_option extractNumericMap (objectSection t ''borderRadius''),
                         elevation = map_option extractElevation (objectSection t ''boxShadow''),
                         motion = None\<rparr>
                  in if \<not> hasContent tokens
                     then Inl ''Tailwind config theme contained no extractable token values.''
                     else Inr tokens)))"

subsection \<open>Merging in the words of the specification\<close>

text \<open>
  The specification asks for \<open>extend.X\<close> merged over the top-level \<open>X\<close> at the leaf
  level: every leaf of either is kept, and where both define a leaf the one of
  \<open>extend\<close> is taken. For two flat objects that is the top-level entries overwritten
  and extended by those of \<open>extend\<close>.
\<close>

definition spec_mergeFlat :: "json \<Rightarrow> json \<Rightarrow> json" where
  "spec_mergeFlat base ext = JObj (assignAll (jsonEntries base) (jsonEntries ext))"

text \<open>A theme with a top-level palette and an extension of it.\<close>

definition topColors :: json where
  "topColors = JObj [(''primary'', JStr ''#6750A4''), (''surface'', JStr ''#FEF7FF'')]"

definition extendColors :: json where
  "extendColors = JObj [(''accent'', JStr ''#ff6b35'')]"

definition themeWithBoth :: json where
  "themeWithBoth = JObj [(''colors'', topColors), (''extend'', JObj [(''colors'', extendColors)])]"

text \<open>A theme that defines each of the six sections at the top level and under \<open>extend\<close>.\<close>

definition extendFontSize :: json where
  "extendFontSize =
     JObj [(''xl'', JArr [JStr ''1.25rem'',
                          JObj [(''lineHeight'', JStr ''1.75rem''), (''fontWeight'', JStr ''600'')]])]"

definition extendFontFamily :: json where
  "extendFontFamily = JObj [(''mono'', JArr [JStr ''Fira Code'', JStr ''monospace''])]"

definition extendSpacing :: json where
  "extendSpacing = JObj [(''lg'', JStr ''1.5rem'')]"

definition extendBorderRadius :: json where
  "extendBorderRadius = JObj [(''lg'', JStr ''0.5rem'')]"

definition extendBoxShadow :: json where
  "extendBoxShadow = JObj [(''md'', JStr ''0 4px 6px -1px rgba(0, 0, 0, 0.1)'')]"

definition extendPart :: json where
  "extendPart =
     JObj [(''colors'', extendColors), (''fontSize'', extendFontSize),
           (''fontFamily'', extendFontFamily), (''spacing'', extendSpacing),
           (''borderRadius'', extendBorderRadius), (''boxShadow'', extendBoxShadow)]"

definition fullTheme :: json where
  "fullTheme =
     JObj [(''colors'', topColors),
           (''fontSize'', JObj [(''base'', JStr ''1rem'')]),
           (''fontFamily'', JObj [(''sans'', JArr [JStr ''Inter''])]),
           (''spacing'', JObj [(''sm'', JStr ''8px'')]),
           (''borderRadius'', JObj [(''sm'', JStr ''4px'')]),
           (''boxShadow'', JObj [(''sm'', JStr ''0 1px 2px #0000000d'')]),
           (''extend'', extendPart)]"

definition fullThemeTokens :: DesignTokens where
  "fullThemeTokens =
     \<lparr>colors = Some [(''accent'', \<lparr>value = ''#FF6B35'', description = None, category = None\<rparr>)],
      typography = Some
        [(''xl'', \<lparr>fontFamily = None, fontSize = 20, lineHeight = Some 28,
                   fontWeight = Some 600, letterSpacing = None\<rparr>),
         (''font-mono'', \<lparr>fontFamily = Some (JStr ''Fira Code''), fontSize = 16,
                   lineHeight = None, fontWeight = None, letterSpacing = None\<rparr>)],
      spacing = Some [(''lg'', 24)],
      radii = Some [(''lg'', 8)],
      elevation = Some
        [(''md'', \<lparr>shadowColor = ''#000000'', shadowOffsetX = 0, shadowOffsetY = 4,
                   shadowRadius = 6, shadowOpacity = Some (1 / 10)\<rparr>)],
      motion = None\<rparr>"

text \<open>
  A theme whose \<open>extend\<close> holds values that are no objects for five of the sections,
  all of which the theme defines at the top level.
\<close>

definition topFontSize :: json where
  "topFontSize = JObj [(''base'', JStr ''1rem'')]"

definition topSpacing :: json where
  "topSpacing = JObj [(''sm'', JStr ''8px'')]"

definition topBorderRadius :: json where
  "topBorderRadius = JObj [(''sm'', JStr ''4px'')]"

definition topBoxShadow :: json where
  "topBoxShadow = JObj [(''sm'', JStr ''0 1px 2px #0000000d'')]"

definition scalarExtendTheme :: json where
  "scalarExtendTheme =
     JObj [(''colors'', topColors), (''fontSize'', topFontSize), (''spacing'', topSpacing),
           (''borderRadius'', topBorderRadius), (''boxShadow'', topBoxShadow),
           (''extend'',
            JObj [(''colors'', JStr ''inherit''), (''fontSize'', JStr ''16px''),
                  (''fontFamily'', extendFontFamily), (''spacing'', JNum 4),
                  (''borderRadius'', JBool True), (''boxShadow'', JStr ''none'')])]"

definition scalarExtendTokens :: DesignTokens where
  "scalarExtendTokens =
     emptyTokens\<lparr>typography := Some
        [(''font-mono'', \<lparr>fontFamily = Some (JStr ''Fira Code''), fontSize = 16,
                   lineHeight = None, fontWeight = None, letterSpacing = None\<rparr>)]\<rparr>"

text \<open>
  A theme whose \<open>extend\<close> defines \<open>fontFamily\<close> only (and \<open>colors\<close> as null); the
  other sections stand at the top level.
\<close>

definition topLevelTheme :: json where
  "topLevelTheme =
     JObj [(''colors'', topColors), (''fontSize'', topFontSize), (''spacing'', topSpacing),
           (''borderRadius'', topBorderRadius), (''boxShadow'', JStr ''none''),
           (''extend'', JObj [(''colors'', JNull), (''fontFamily'', extendFontFamily)])]"

definition topLevelTokens :: DesignTokens where
  "topLevelTokens =
     \<lparr>colors = Some [(''primary'', \<lparr>value = ''#6750A4'', description = None, category = None\<rparr>),
                      (''surface'', \<lparr>value = ''#FEF7FF'', description = None, category = None\<rparr>)],
      typography = Some
        [(''base'', \<lparr>fontFamily = None, fontSize = 16, lineHeight = None,
                   fontWeight = None, letterSpacing = None\<rparr>),
         (''font-mono'', \<lparr>fontFamily = Some (JStr ''Fira Code''), fontSize = 16,
                   lineHeight = None, fontWeight = None, letterSpacing = None\<rparr>)],
      spacing = Some [(''sm'', 8)],
      radii = Some [(''sm'', 4)],
      elevation = None,
      motion = None\<rparr>"

text \<open>A stand-in for the number-to-text conversion, exact on the natural numbers.\<close>

definition plainNumber :: "real \<Rightarrow> string" where
  "plainNumber x = (if 0 \<le> x \<and> isInteger x then natToDec (nat \<lfloor>x\<rfloor>) else ''NaN'')"


section \<open>Properties\<close>

lemma toUpperChar_upper_hex: "isUpperHexDigit c \<Longrightarrow> toUpperChar c = c"
  by (auto simp: isUpperHexDigit_def toUpperChar_def isLower_def isDigit_def)

lemma toUpperCase_upper_hex: "list_all isUpperHexDigit ds \<Longrightarrow> toUpperCase ds = ds"
  by (induction ds) (simp_all add: toUpperCase_def toUpperChar_upper_hex)

lemma toUpperChar_hash: "toUpperChar CHR ''#'' = CHR ''#''"
  by (simp add: toUpperChar_def isLower_def charCode_def)

lemma upper_hex_is_hex: "isUpperHexDigit c \<Longrightarrow> isHexDigit c"
  by (auto simp: isUpperHexDigit_def isHexDigit_def)

lemma normalizedHex_unchanged:
  assumes "normalizedHex n s" and "n \<noteq> 3"
  shows "normalizeHexColor s = s"
proof -
  from assms(1) obtain ds where s: "s = CHR ''#'' # ds" and len: "length ds = n"
    and up: "list_all isUpperHexDigit ds"
    by (auto simp: normalizedHex_def split: list.splits)
  from len assms(2) have "\<not> hexPattern 3 3 s"
    by (simp add: hexPattern_def s)
  then have "normalizeHexColor s = toUpperCase s"
    by (simp add: normalizeHexColor_def)
  also have "\<dots> = s"
    using toUpperCase_upper_hex[OF up] by (simp add: s toUpperCase_def toUpperChar_hash)
  finally show ?thesis .
qed

text \<open>
  Claim C9. Normalizing an already-normalized colour (a \<open>#\<close> and six or eight digits
  from \<open>[0-9A-F]\<close>) returns it unchanged, and normalizing a three-digit colour \<open>#RGB\<close>
  returns \<open>#RRGGBB\<close>, each digit written twice and upper-cased.
\<close>

theorem normalizeHexColor_idempotent_and_expands:
  "(normalizedHex 6 s \<or> normalizedHex 8 s \<longrightarrow> normalizeHexColor s = s) \<and>
   (isHexDigit r \<and> isHexDigit g \<and> isHexDigit b \<longrightarrow>
      normalizeHexColor [CHR ''#'', r, g, b] =
        [CHR ''#'', toUpperChar r, toUpperChar r, toUpperChar g, toUpperChar g,
         toUpperChar b, toUpperChar b])"
proof (intro conjI impI)
  assume "normalizedHex 6 s \<or> normalizedHex 8 s"
  then show "normalizeHexColor s = s"
    by (auto intro: normalizedHex_unchanged)
next
  assume "isHexDigit r \<and> isHexDigit g \<and> isHexDigit b"
  then have "hexPattern 3 3 [CHR ''#'', r, g, b]"
    by (simp add: hexPattern_def)
  then show "normalizeHexColor [CHR ''#'', r, g, b] =
        [CHR ''#'', toUpperChar r, toUpperChar r, toUpperChar g, toUpperChar g,
         toUpperChar b, toUpperChar b]"
    by (simp add: normalizeHexColor_def toUpperCase_def toUpperChar_hash Let_def)
qed

theorem normalizeHexColor_idempotent_and_expands_witness:
  "(normalizedHex 6 ''#6750A4'' \<or> normalizedHex 8 ''#6750A4'') \<and>
   normalizeHexColor ''#6750A4'' = ''#6750A4'' \<and>
   (isHexDigit CHR ''f'' \<and> isHexDigit CHR ''0'' \<and> isHexDigit CHR ''a'') \<and>
   normalizeHexColor ''#f0a'' = ''#FF00AA''"
  using normalizeHexColor_idempotent_and_expands [of "''#6750A4''" "CHR ''f''" "CHR ''0''" "CHR ''a''"]
  by (simp add: normalizedHex_def isUpperHexDigit_def isHexDigit_def isDigit_def charCode_def
        toUpperChar_def isLower_def char_of_eq_iff)

subsection \<open>The contrast report\<close>

lemma passesAt_flag: "passesAt lv = (if lv = AA then aaNormalText else aaaNormalText)"
  by (auto simp: passesAt_def fun_eq_iff)

lemma validateContrast_counts:
  "total (validateContrast tokens lv) = int (length (results (validateContrast tokens lv))) \<and>
   passing (validateContrast tokens lv) + failing (validateContrast tokens lv)
     = total (validateContrast tokens lv) \<and>
   passing (validateContrast tokens lv)
     = int (length (filter (passesAt lv) (results (validateContrast tokens lv))))"
  by (simp add: validateContrast_def Let_def split: option.splits)

text \<open>
  Claim C10. For every token set and level the report is consistent: \<open>total\<close> is the
  number of per-pair results, \<open>passing + failing = total\<close>, and \<open>passing\<close> counts
  the results whose normal-text flag at the requested level is true.
\<close>

theorem validateContrast_invariant:
  "total (validateContrast tokens lv) = int (length (results (validateContrast tokens lv))) \<and>
   passing (validateContrast tokens lv) + failing (validateContrast tokens lv)
     = total (validateContrast tokens lv) \<and>
   passing (validateContrast tokens lv)
     = int (length (filter (if lv = AA then aaNormalText else aaaNormalText)
                      (results (validateContrast tokens lv))))"
  using validateContrast_counts[of tokens lv] unfolding passesAt_flag .


theorem validateContrast_invariant_witness:
  "total (validateContrast (emptyTokens\<lparr>colors := Some companionAndTextColors\<rparr>) AA) = 2 \<and>
   passing (validateContrast (emptyTokens\<lparr>colors := Some companionAndTextColors\<rparr>) AA)
   + failing (validateContrast (emptyTokens\<lparr>colors := Some companionAndTextColors\<rparr>) AA) = 2"
proof -
  have "length (findSemanticPairs companionAndTextColors) = 2"
    by code_simp
  moreover have "length companionAndTextColors = 4"
    by code_simp
  ultimately have "length (results (validateContrast (emptyTokens\<lparr>colors := Some companionAndTextColors\<rparr>) AA)) = 2"
    by (auto simp: validateContrast_def Let_def)
  with validateContrast_invariant [of "emptyTokens\<lparr>colors := Some companionAndTextColors\<rparr>" AA]
  show ?thesis by simp
qed

subsection \<open>Pairing\<close>

lemma pushCommonPair_extends: "\<exists>r. pushCommonPair f ps b = ps @ r"
  by (simp add: pushCommonPair_def Let_def)

lemma pushCommonPairs_inner_extends: "\<exists>r. foldl (pushCommonPair f) ps bs = ps @ r"
proof (induction bs arbitrary: ps)
  case Nil
  then show ?case by simp
next
  case (Cons b bs)
  obtain r1 where r1: "pushCommonPair f ps b = ps @ r1"
    using pushCommonPair_extends by blast
  obtain r2 where "foldl (pushCommonPair f) (ps @ r1) bs = (ps @ r1) @ r2"
    using Cons.IH[of "ps @ r1"] by blast
  with r1 show ?case by simp
qed

lemma pushCommonPairs_extends: "\<exists>r. foldl (pushCommonPairs bs) ps fs = ps @ r"
proof (induction fs arbitrary: ps)
  case Nil
  then show ?case by simp
next
  case (Cons f fs)
  obtain r1 where r1: "pushCommonPairs bs ps f = ps @ r1"
    using pushCommonPairs_inner_extends[of f ps bs] unfolding pushCommonPairs_def by blast
  obtain r2 where "foldl (pushCommonPairs bs) (ps @ r1) fs = (ps @ r1) @ r2"
    using Cons.IH[of "ps @ r1"] by blast
  with r1 show ?case by simp
qed

lemma hasName_append: "hasName n ps \<Longrightarrow> hasName n (ps @ r)"
  by (auto simp: hasName_def list_ex_iff)

lemma hasName_inner_mono: "hasName n ps \<Longrightarrow> hasName n (foldl (pushCommonPair f) ps bs)"
  using pushCommonPairs_inner_extends[of f ps bs] by (auto intro: hasName_append)

lemma hasName_outer_mono: "hasName n ps \<Longrightarrow> hasName n (foldl (pushCommonPairs bs) ps fs)"
  using pushCommonPairs_extends[of bs ps fs] by (auto intro: hasName_append)

lemma pushCommonPair_hasName: "hasName (fst f @ '' on '' @ fst b) (pushCommonPair f ps b)"
  by (simp add: pushCommonPair_def Let_def hasName_def)

lemma inner_hasName:
  "b \<in> set bs \<Longrightarrow> hasName (fst f @ '' on '' @ fst b) (foldl (pushCommonPair f) ps bs)"
proof (induction bs arbitrary: ps)
  case Nil
  then show ?case by simp
next
  case (Cons b' bs)
  show ?case
  proof (cases "b = b'")
    case True
    then show ?thesis
      using hasName_inner_mono[OF pushCommonPair_hasName] by simp
  next
    case False
    with Cons show ?thesis by simp
  qed
qed

lemma outer_hasName:
  "f \<in> set fs \<Longrightarrow> b \<in> set bs \<Longrightarrow>
   hasName (fst f @ '' on '' @ fst b) (foldl (pushCommonPairs bs) ps fs)"
proof (induction fs arbitrary: ps)
  case Nil
  then show ?case by simp
next
  case (Cons f' fs)
  show ?case
  proof (cases "f = f'")
    case True
    have "hasName (fst f @ '' on '' @ fst b) (pushCommonPairs bs ps f)"
      using inner_hasName[OF Cons.prems(2)] by (simp add: pushCommonPairs_def)
    then show ?thesis
      using True hasName_outer_mono by simp
  next
    case False
    with Cons show ?thesis by simp
  qed
qed

lemma pushCommonPair_invariant:
  assumes "ps = base @ r" and "distinct (map name r)"
    and "\<forall>p\<in>set r. \<not> hasName (name p) base \<and> Q p"
    and "Q \<lparr>name = fst f @ '' on '' @ fst b, fg = value (snd f), bg = value (snd b)\<rparr>"
  shows "\<exists>r'. pushCommonPair f ps b = base @ r' \<and> distinct (map name r') \<and>
              (\<forall>p\<in>set r'. \<not> hasName (name p) base \<and> Q p)"
proof (cases "hasName (fst f @ '' on '' @ fst b) ps")
  case True
  then have "pushCommonPair f ps b = ps" by (simp add: pushCommonPair_def Let_def)
  with assms show ?thesis by blast
next
  case False
  let ?new = "\<lparr>name = fst f @ '' on '' @ fst b, fg = value (snd f), bg = value (snd b)\<rparr>"
  from False have push: "pushCommonPair f ps b = base @ (r @ [?new])"
    by (simp add: pushCommonPair_def Let_def assms(1))
  from False assms(1) have nb: "\<not> hasName (name ?new) base"
    and nr: "name ?new \<notin> set (map name r)"
    by (auto simp: hasName_def list_ex_iff)
  from nr assms(2) have "distinct (map name (r @ [?new]))" by simp
  moreover from nb assms(3,4) have "\<forall>p\<in>set (r @ [?new]). \<not> hasName (name p) base \<and> Q p"
    by auto
  ultimately show ?thesis using push by blast
qed

lemma pushCommonPairs_inner_invariant:
  assumes "ps = base @ r" and "distinct (map name r)"
    and "\<forall>p\<in>set r. \<not> hasName (name p) base \<and> Q p"
    and "\<forall>b\<in>set bs. Q \<lparr>name = fst f @ '' on '' @ fst b, fg = value (snd f), bg = value (snd b)\<rparr>"
  shows "\<exists>r'. foldl (pushCommonPair f) ps bs = base @ r' \<and> distinct (map name r') \<and>
              (\<forall>p\<in>set r'. \<not> hasName (name p) base \<and> Q p)"
  using assms
proof (induction bs arbitrary: ps r)
  case Nil
  then show ?case by auto
next
  case (Cons b bs)
  from Cons.prems(4)
  have q: "Q \<lparr>name = fst f @ '' on '' @ fst b, fg = value (snd f), bg = value (snd b)\<rparr>"
    and qs: "\<forall>b\<in>set bs. Q \<lparr>name = fst f @ '' on '' @ fst b, fg = value (snd f), bg = value (snd b)\<rparr>"
    by simp_all
  from pushCommonPair_invariant[OF Cons.prems(1) Cons.prems(2) Cons.prems(3) q]
  obtain r1 where r1: "pushCommonPair f ps b = base @ r1" "distinct (map name r1)"
    "\<forall>p\<in>set r1. \<not> hasName (name p) base \<and> Q p"
    by blast
  from Cons.IH[OF r1(1) r1(2) r1(3) qs] show ?case by simp
qed

lemma pushCommonPairs_invariant:
  assumes "ps = base @ r" and "distinct (map name r)"
    and "\<forall>p\<in>set r. \<not> hasName (name p) base \<and> Q p"
    and "\<forall>f\<in>set fs. \<forall>b\<in>set bs.
           Q \<lparr>name = fst f @ '' on '' @ fst b, fg = value (snd f), bg = value (snd b)\<rparr>"
  shows "\<exists>r'. foldl (pushCommonPairs bs) ps fs = base @ r' \<and> distinct (map name r') \<and>
              (\<forall>p\<in>set r'. \<not> hasName (name p) base \<and> Q p)"
  using assms
proof (induction fs arbitrary: ps r)
  case Nil
  then show ?case by auto
next
  case (Cons f fs)
  from Cons.prems(4)
  have q: "\<forall>b\<in>set bs. Q \<lparr>name = fst f @ '' on '' @ fst b, fg = value (snd f), bg = value (snd b)\<rparr>"
    and qs: "\<forall>f\<in>set fs. \<forall>b\<in>set bs.
           Q \<lparr>name = fst f @ '' on '' @ fst b, fg = value (snd f), bg = value (snd b)\<rparr>"
    by simp_all
  from pushCommonPairs_inner_invariant[OF Cons.prems(1) Cons.prems(2) Cons.prems(3) q]
  obtain r1 where r1: "pushCommonPairs bs ps f = base @ r1" "distinct (map name r1)"
    "\<forall>p\<in>set r1. \<not> hasName (name p) base \<and> Q p"
    unfolding pushCommonPairs_def by blast
  from Cons.IH[OF r1(1) r1(2) r1(3) qs] show ?case by simp
qed

lemma findSemanticPairs_rest:
  "\<exists>rest. findSemanticPairs entries = onCompanionPairs entries @ rest \<and>
      distinct (map name rest) \<and>
      (\<forall>p\<in>set rest. \<not> hasName (name p) (onCompanionPairs entries) \<and>
         (\<exists>(fgName, fgToken)\<in>set entries. \<exists>(bgName, bgToken)\<in>set entries.
            isTextName fgName \<and> isBgName bgName \<and>
            p = \<lparr>name = fgName @ '' on '' @ bgName, fg = value fgToken, bg = value bgToken\<rparr>))"
proof -
  let ?Q = "\<lambda>p. \<exists>(fgName, fgToken)\<in>set entries. \<exists>(bgName, bgToken)\<in>set entries.
            isTextName fgName \<and> isBgName bgName \<and>
            p = \<lparr>name = fgName @ '' on '' @ bgName, fg = value fgToken, bg = value bgToken\<rparr>"
  let ?fs = "filter (\<lambda>(n, t). isTextName n) entries"
  let ?bs = "filter (\<lambda>(n, t). isBgName n) entries"
  have q: "\<forall>f\<in>set ?fs. \<forall>b\<in>set ?bs.
           ?Q \<lparr>name = fst f @ '' on '' @ fst b, fg = value (snd f), bg = value (snd b)\<rparr>"
  proof (intro ballI)
    fix f b
    assume f: "f \<in> set ?fs" and b: "b \<in> set ?bs"
    obtain fn ft where fe: "f = (fn, ft)" by (cases f)
    obtain bn bt where be: "b = (bn, bt)" by (cases b)
    from f fe have f': "(fn, ft) \<in> set entries" "isTextName fn" by simp_all
    from b be have b': "(bn, bt) \<in> set entries" "isBgName bn" by simp_all
    from f' b' show "?Q \<lparr>name = fst f @ '' on '' @ fst b, fg = value (snd f), bg = value (snd b)\<rparr>"
      unfolding fe be by force
  qed
  have "\<exists>r'. foldl (pushCommonPairs ?bs) (onCompanionPairs entries) ?fs
               = onCompanionPairs entries @ r' \<and> distinct (map name r') \<and>
              (\<forall>p\<in>set r'. \<not> hasName (name p) (onCompanionPairs entries) \<and> ?Q p)"
    by (rule pushCommonPairs_invariant[where r = "[]" and Q = ?Q, OF _ _ _ q]) simp_all
  then show ?thesis by (simp add: findSemanticPairs_def Let_def)
qed

lemma findSemanticPairs_contains:
  assumes "(fgName, fgToken) \<in> set entries" and "isTextName fgName"
    and "(bgName, bgToken) \<in> set entries" and "isBgName bgName"
  shows "hasName (fgName @ '' on '' @ bgName) (findSemanticPairs entries)"
proof -
  from assms have f: "(fgName, fgToken) \<in> set (filter (\<lambda>(n, t). isTextName n) entries)"
    and b: "(bgName, bgToken) \<in> set (filter (\<lambda>(n, t). isBgName n) entries)"
    by simp_all
  from outer_hasName[OF f b] show ?thesis
    by (simp add: findSemanticPairs_def Let_def)
qed

lemma pushCommonPairs_no_background: "foldl (pushCommonPairs []) ps fs = ps"
  by (induction fs arbitrary: ps) (simp_all add: pushCommonPairs_def)

lemma findSemanticPairs_empty:
  "findSemanticPairs entries = [] \<longleftrightarrow>
     onCompanionPairs entries = [] \<and>
     (filter (\<lambda>(n, t). isTextName n) entries = [] \<or> filter (\<lambda>(n, t). isBgName n) entries = [])"
proof
  assume e: "findSemanticPairs entries = []"
  from pushCommonPairs_extends[of "filter (\<lambda>(n, t). isBgName n) entries" "onCompanionPairs entries"
      "filter (\<lambda>(n, t). isTextName n) entries"] e
  have c: "onCompanionPairs entries = []" by (simp add: findSemanticPairs_def Let_def)
  have "filter (\<lambda>(n, t). isTextName n) entries = [] \<or> filter (\<lambda>(n, t). isBgName n) entries = []"
  proof (rule ccontr)
    assume "\<not> ?thesis"
    then obtain f b where f: "f \<in> set (filter (\<lambda>(n, t). isTextName n) entries)"
      and b: "b \<in> set (filter (\<lambda>(n, t). isBgName n) entries)"
      by (meson last_in_set)
    from outer_hasName[OF f b, of "onCompanionPairs entries"] e show False
      by (simp add: findSemanticPairs_def Let_def hasName_def)
  qed
  with c show "onCompanionPairs entries = [] \<and>
     (filter (\<lambda>(n, t). isTextName n) entries = [] \<or> filter (\<lambda>(n, t). isBgName n) entries = [])"
    by simp
next
  assume a: "onCompanionPairs entries = [] \<and>
     (filter (\<lambda>(n, t). isTextName n) entries = [] \<or> filter (\<lambda>(n, t). isBgName n) entries = [])"
  then show "findSemanticPairs entries = []"
    unfolding findSemanticPairs_def Let_def
    by (elim conjE disjE) (simp_all add: pushCommonPairs_no_background)
qed

lemma validateContrast_results:
  "colors tokens = Some entries \<Longrightarrow> 2 \<le> length entries \<Longrightarrow>
   results (validateContrast tokens lv) =
     map contrastResult
       (if findSemanticPairs entries = [] then allPairs entries else findSemanticPairs entries)"
  by (simp add: validateContrast_def Let_def)

text \<open>
  Claim C4 (as amended). The pairing of foreground-like names against background-like
  names is applied whether or not companion pairs were found. The list returned by
  \<open>findSemanticPairs\<close> starts with the on-X companion pairs; what follows are pairs
  \<open>fg on bg\<close> of a foreground-like and a background-like colour, each name once
  and none that a companion pair bears already; and for every foreground-like colour
  and every background-like colour the list contains a pair named \<open>fg on bg\<close>. The
  list is empty only when there is no companion pair and no foreground-like or no
  background-like colour, and only then \<open>validateContrast\<close> pairs the colours
  exhaustively.
\<close>

theorem findSemanticPairs_common_pairs_unconditional:
  "(\<exists>rest. findSemanticPairs entries = onCompanionPairs entries @ rest \<and>
      distinct (map name rest) \<and>
      (\<forall>p\<in>set rest. \<not> hasName (name p) (onCompanionPairs entries) \<and>
         (\<exists>(fgName, fgToken)\<in>set entries. \<exists>(bgName, bgToken)\<in>set entries.
            isTextName fgName \<and> isBgName bgName \<and>
            p = \<lparr>name = fgName @ '' on '' @ bgName, fg = value fgToken, bg = value bgToken\<rparr>))) \<and>
   ((fgName, fgToken) \<in> set entries \<and> isTextName fgName \<and>
    (bgName, bgToken) \<in> set entries \<and> isBgName bgName \<longrightarrow>
      hasName (fgName @ '' on '' @ bgName) (findSemanticPairs entries)) \<and>
   (findSemanticPairs entries = [] \<longleftrightarrow>
      onCompanionPairs entries = [] \<and>
      (filter (\<lambda>(n, t). isTextName n) entries = [] \<or> filter (\<lambda>(n, t). isBgName n) entries = [])) \<and>
   (colors tokens = Some entries \<and> 2 \<le> length entries \<longrightarrow>
      results (validateContrast tokens lv) =
        map contrastResult
          (if onCompanionPairs entries = [] \<and>
              (filter (\<lambda>(n, t). isTextName n) entries = [] \<or>
               filter (\<lambda>(n, t). isBgName n) entries = [])
           then allPairs entries else findSemanticPairs entries))"
proof (intro conjI impI)
  show "\<exists>rest. findSemanticPairs entries = onCompanionPairs entries @ rest \<and>
      distinct (map name rest) \<and>
      (\<forall>p\<in>set rest. \<not> hasName (name p) (onCompanionPairs entries) \<and>
         (\<exists>(fgName, fgToken)\<in>set entries. \<exists>(bgName, bgToken)\<in>set entries.
            isTextName fgName \<and> isBgName bgName \<and>
            p = \<lparr>name = fgName @ '' on '' @ bgName, fg = value fgToken, bg = value bgToken\<rparr>))"
    by (rule findSemanticPairs_rest)
next
  assume "(fgName, fgToken) \<in> set entries \<and> isTextName fgName \<and>
    (bgName, bgToken) \<in> set entries \<and> isBgName bgName"
  then show "hasName (fgName @ '' on '' @ bgName) (findSemanticPairs entries)"
    using findSemanticPairs_contains by blast
next
  show "findSemanticPairs entries = [] \<longleftrightarrow>
      onCompanionPairs entries = [] \<and>
      (filter (\<lambda>(n, t). isTextName n) entries = [] \<or> filter (\<lambda>(n, t). isBgName n) entries = [])"
    by (rule findSemanticPairs_empty)
next
  assume "colors tokens = Some entries \<and> 2 \<le> length entries"
  then have "results (validateContrast tokens lv) =
     map contrastResult
       (if findSemanticPairs entries = [] then allPairs entries else findSemanticPairs entries)"
    using validateContrast_results by blast
  then show "results (validateContrast tokens lv) =
        map contrastResult
          (if onCompanionPairs entries = [] \<and>
              (filter (\<lambda>(n, t). isTextName n) entries = [] \<or>
               filter (\<lambda>(n, t). isBgName n) entries = [])
           then allPairs entries else findSemanticPairs entries)"
    unfolding findSemanticPairs_empty .
qed

lemma surfaceColors_facts:
  "(''text'', mkColor ''#000000'') \<in> set surfaceColors \<and> isTextName ''text'' \<and>
   (''on-surface'', mkColor ''#1C1B1F'') \<in> set surfaceColors \<and> isTextName ''on-surface'' \<and>
   (''surface'', mkColor ''#FFFBFE'') \<in> set surfaceColors \<and> isBgName ''surface'' \<and>
   2 \<le> length surfaceColors \<and>
   onCompanionPairs surfaceColors =
     [\<lparr>name = ''on-surface on surface'', fg = ''#1C1B1F'', bg = ''#FFFBFE''\<rparr>]"
  by code_simp

lemma brandColors_facts:
  "2 \<le> length brandColors \<and> onCompanionPairs brandColors = [] \<and>
   filter (\<lambda>(n, t). isTextName n) brandColors = [] \<and>
   allPairs brandColors = [\<lparr>name = ''primary/secondary'', fg = ''#6750A4'', bg = ''#625B71''\<rparr>]"
  by code_simp

theorem findSemanticPairs_common_pairs_unconditional_witness:
  "(''text'', mkColor ''#000000'') \<in> set surfaceColors \<and> isTextName ''text'' \<and>
   (''on-surface'', mkColor ''#1C1B1F'') \<in> set surfaceColors \<and> isTextName ''on-surface'' \<and>
   (''surface'', mkColor ''#FFFBFE'') \<in> set surfaceColors \<and> isBgName ''surface'' \<and>
   onCompanionPairs surfaceColors =
     [\<lparr>name = ''on-surface on surface'', fg = ''#1C1B1F'', bg = ''#FFFBFE''\<rparr>] \<and>
   hasName ''text on surface'' (findSemanticPairs surfaceColors) \<and>
   hasName ''on-surface on surface'' (findSemanticPairs surfaceColors) \<and>
   (\<exists>rest. findSemanticPairs surfaceColors = onCompanionPairs surfaceColors @ rest \<and>
      distinct (map name rest) \<and>
      list_all (\<lambda>p. name p \<noteq> ''on-surface on surface'') rest) \<and>
   findSemanticPairs surfaceColors \<noteq> [] \<and>
   results (validateContrast (emptyTokens\<lparr>colors := Some surfaceColors\<rparr>) AA)
     = map contrastResult (findSemanticPairs surfaceColors) \<and>
   findSemanticPairs brandColors = [] \<and>
   results (validateContrast (emptyTokens\<lparr>colors := Some brandColors\<rparr>) AA)
     = map contrastResult
         [\<lparr>name = ''primary/secondary'', fg = ''#6750A4'', bg = ''#625B71''\<rparr>]"
proof -
  note surface = findSemanticPairs_common_pairs_unconditional
    [where entries = surfaceColors and fgName = "''text''" and fgToken = "mkColor ''#000000''"
       and bgName = "''surface''" and bgToken = "mkColor ''#FFFBFE''"
       and tokens = "emptyTokens\<lparr>colors := Some surfaceColors\<rparr>" and lv = AA]
  note onSurface = findSemanticPairs_common_pairs_unconditional
    [where entries = surfaceColors and fgName = "''on-surface''"
       and fgToken = "mkColor ''#1C1B1F''"
       and bgName = "''surface''" and bgToken = "mkColor ''#FFFBFE''"]
  note brand = findSemanticPairs_common_pairs_unconditional
    [where entries = brandColors and tokens = "emptyTokens\<lparr>colors := Some brandColors\<rparr>"
       and lv = AA]
  have a: "hasName ''text on surface'' (findSemanticPairs surfaceColors)"
    using surface surfaceColors_facts by simp
  have b: "hasName ''on-surface on surface'' (findSemanticPairs surfaceColors)"
    using onSurface surfaceColors_facts by simp
  from surface obtain rest where rest:
    "findSemanticPairs surfaceColors = onCompanionPairs surfaceColors @ rest"
    "distinct (map name rest)"
    "\<forall>p\<in>set rest. \<not> hasName (name p) (onCompanionPairs surfaceColors)"
    by blast
  from rest(3) surfaceColors_facts
  have "list_all (\<lambda>p. name p \<noteq> ''on-surface on surface'') rest"
    by (auto simp: hasName_def list_all_iff)
  with rest have c: "\<exists>rest. findSemanticPairs surfaceColors = onCompanionPairs surfaceColors @ rest \<and>
      distinct (map name rest) \<and> list_all (\<lambda>p. name p \<noteq> ''on-surface on surface'') rest"
    by blast
  have d: "findSemanticPairs surfaceColors \<noteq> []"
    using surface surfaceColors_facts by simp
  have e: "results (validateContrast (emptyTokens\<lparr>colors := Some surfaceColors\<rparr>) AA)
     = map contrastResult (findSemanticPairs surfaceColors)"
    using surface surfaceColors_facts by (simp add: emptyTokens_def)
  have f: "findSemanticPairs brandColors = []"
    using brand brandColors_facts by simp
  have g: "results (validateContrast (emptyTokens\<lparr>colors := Some brandColors\<rparr>) AA)
     = map contrastResult
         [\<lparr>name = ''primary/secondary'', fg = ''#6750A4'', bg = ''#625B71''\<rparr>]"
    using brand brandColors_facts by (simp add: emptyTokens_def)
  from a b c d e f g surfaceColors_facts show ?thesis by simp
qed

text \<open>
  The claim as stated fails: with the companion pair \<open>on-primary\<close>/\<open>primary\<close> present,
  the list still receives the pair \<open>text on background\<close>, which is no companion pair.
\<close>

theorem findSemanticPairs_fallback_counterexample:
  "onCompanionPairs companionAndTextColors =
     [\<lparr>name = ''on-primary on primary'', fg = ''#FFFFFF'', bg = ''#6750A4''\<rparr>] \<and>
   findSemanticPairs companionAndTextColors =
     [\<lparr>name = ''on-primary on primary'', fg = ''#FFFFFF'', bg = ''#6750A4''\<rparr>,
      \<lparr>name = ''text on background'', fg = ''#1C1B1F'', bg = ''#FFFBFE''\<rparr>]"
  by code_simp

subsection \<open>Contrast ratio\<close>

lemma hex_not_space: "isHexDigit c \<Longrightarrow> \<not> isSpace c"
  by (auto simp: isHexDigit_def isSpace_def isDigit_def)

lemma hex_not_sign: "isHexDigit c \<Longrightarrow> c \<noteq> CHR ''-'' \<and> c \<noteq> CHR ''+''"
  by (auto simp: isHexDigit_def isDigit_def charCode_def)

lemma hex_not_x: "isHexDigit c \<Longrightarrow> c \<noteq> CHR ''x'' \<and> c \<noteq> CHR ''X''"
  by (auto simp: isHexDigit_def isDigit_def charCode_def)

lemma parseInt16_two_digits:
  assumes "isHexDigit c" and "isHexDigit d"
  shows "parseInt16 [c, d] = Some (real (hexValue [c, d]))"
  using assms hex_not_space[OF assms(1)] hex_not_sign[OF assms(1)] hex_not_x[OF assms(2)]
  by (simp add: parseInt16_def stripHexPrefix_def Let_def)

lemma linearize_nonneg: "0 \<le> c \<Longrightarrow> 0 \<le> linearize c"
  by (simp add: linearize_def)

lemma channel_two_digits:
  assumes "isHexDigit c" and "isHexDigit d"
  shows "\<exists>v. channel [c, d] = Some v \<and> 0 \<le> v"
  using parseInt16_two_digits[OF assms] by (simp add: channel_def linearize_nonneg)

lemma lum_six_digits:
  assumes "list_all isHexDigit h" and "6 \<le> length h"
  shows "\<exists>l. luminanceOfDigits h = Some l \<and> 0 \<le> l"
proof -
  from assms(2) obtain a b c d e f rest where h: "h = a # b # c # d # e # f # rest"
    by (auto simp: Suc_le_length_iff eval_nat_numeral)
  with assms(1) have hx: "isHexDigit a" "isHexDigit b" "isHexDigit c" "isHexDigit d"
      "isHexDigit e" "isHexDigit f"
    by simp_all
  obtain r where r: "channel [a, b] = Some r" "0 \<le> r"
    using channel_two_digits[OF hx(1) hx(2)] by blast
  obtain g where g: "channel [c, d] = Some g" "0 \<le> g"
    using channel_two_digits[OF hx(3) hx(4)] by blast
  obtain bl where bl: "channel [e, f] = Some bl" "0 \<le> bl"
    using channel_two_digits[OF hx(5) hx(6)] by blast
  show ?thesis
    using r g bl by (simp add: luminanceOfDigits_def h slice_def)
qed

lemma relativeLuminance_hexColor:
  assumes "hexColor s"
  shows "\<exists>l. relativeLuminance s = Some l \<and> 0 \<le> l"
proof -
  from assms obtain ds where s: "s = CHR ''#'' # ds" and hx: "list_all isHexDigit ds"
    and len: "length ds = 3 \<or> length ds = 6 \<or> length ds = 8"
    by (auto simp: hexColor_def hexPattern_def split: list.splits)
  show ?thesis
  proof (cases "length ds = 3")
    case True
    then obtain a b c where ds: "ds = [a, b, c]"
      by (auto simp: length_Suc_conv eval_nat_numeral)
    with hx have "list_all isHexDigit [a, a, b, b, c, c]" by simp
    from lum_six_digits[OF this] show ?thesis
      by (simp add: relativeLuminance_def s ds)
  next
    case False
    with len have "6 \<le> length ds" by auto
    from lum_six_digits[OF hx this] False show ?thesis
      by (simp add: relativeLuminance_def s)
  qed
qed

lemma contrastRatio_hexColor:
  assumes "hexColor a" and "hexColor b"
  shows "contrastRatio a b = contrastRatio b a \<and> contrastRatio a b \<noteq> None \<and> contrastRatio a a = Some 1"
proof -
  obtain la where la: "relativeLuminance a = Some la" "0 \<le> la"
    using relativeLuminance_hexColor[OF assms(1)] by blast
  obtain lb where lb: "relativeLuminance b = Some lb" "0 \<le> lb"
    using relativeLuminance_hexColor[OF assms(2)] by blast
  show ?thesis
    using la lb by (simp add: contrastRatio_def max.commute min.commute)
qed

lemma linearize_one: "linearize 1 = 1"
  by (simp add: linearize_def)

lemma linearize_zero: "linearize 0 = 0"
  by (simp add: linearize_def)

lemma channel_FF: "channel ''FF'' = Some 1"
  by (simp add: channel_def parseInt16_def stripHexPrefix_def Let_def isSpace_def isHexDigit_def
      isDigit_def charCode_def hexValue_def hexDigitValue_def linearize_one)

lemma channel_00: "channel ''00'' = Some 0"
  by (simp add: channel_def parseInt16_def stripHexPrefix_def Let_def isSpace_def isHexDigit_def
      isDigit_def charCode_def hexValue_def hexDigitValue_def linearize_zero)

lemma relativeLuminance_white: "relativeLuminance ''#FFFFFF'' = Some 1"
  by (simp add: relativeLuminance_def luminanceOfDigits_def slice_def channel_FF)

lemma relativeLuminance_black: "relativeLuminance ''#000000'' = Some 0"
  by (simp add: relativeLuminance_def luminanceOfDigits_def slice_def channel_00)

lemma contrastRatio_white_black: "contrastRatio ''#FFFFFF'' ''#000000'' = Some 21"
  by (simp add: contrastRatio_def relativeLuminance_white relativeLuminance_black)

lemma hexColor_white_black: "hexColor ''#FFFFFF'' \<and> hexColor ''#000000''"
  by (simp add: hexColor_def hexPattern_def isHexDigit_def isDigit_def charCode_def)

text \<open>
  Claim C8. On hex colours (the schema's \<open>hexColor\<close> pattern) the contrast ratio is a
  number, not \<open>NaN\<close>, it is symmetric, and the ratio of a colour with itself is 1; the
  ratio of white and black is 21. Numbers are the reals here, so the last value is exact.
\<close>

theorem contrastRatio_symmetric_reflexive_bounds:
  "(hexColor a \<and> hexColor b \<longrightarrow>
      contrastRatio a b = contrastRatio b a \<and> contrastRatio a b \<noteq> None \<and>
      contrastRatio a a = Some 1) \<and>
   contrastRatio ''#FFFFFF'' ''#000000'' = Some 21"
  using contrastRatio_hexColor contrastRatio_white_black by blast

theorem contrastRatio_symmetric_reflexive_bounds_witness:
  "(hexColor ''#FFFFFF'' \<and> hexColor ''#000000'') \<and>
   contrastRatio ''#FFFFFF'' ''#000000'' = contrastRatio ''#000000'' ''#FFFFFF'' \<and>
   contrastRatio ''#FFFFFF'' ''#FFFFFF'' = Some 1"
  using contrastRatio_symmetric_reflexive_bounds [of "''#FFFFFF''" "''#000000''"]
    hexColor_white_black
  by blast


subsection \<open>Alias resolution\<close>






















text \<open>An alias cycle does not fail the extraction: the variables of the cycle are left out.\<close>

lemma extract_cycleExport:
  "extractTokensFromFigmaVariables cycleExport = Inr (emptyTokens\<lparr>spacing := Some [(''xs'', 4)]\<rparr>)"
  by code_simp

subsection \<open>Mode selection in the variable-graph extractor\<close>

lemma selectValue_first:
  "selectValue None variable = firstValue (valuesByMode variable)"
proof (cases "valuesByMode variable")
  case Nil
  then show ?thesis
    by (simp add: selectValue_def selectModeId_def firstKey_def firstValue_def modeKey_def
        modeValue_def readProperty_def objectPrototypeNames_def)
next
  case (Cons p ps)
  then show ?thesis
    by (cases p)
       (simp add: selectValue_def selectModeId_def firstKey_def firstValue_def modeKey_def
        modeValue_def readProperty_def)
qed

lemma extract_loop:
  "exportVariables d \<noteq> [] \<Longrightarrow>
   extractTokensFromFigmaVariables d =
     (case processAll (findDefaultModeId (exportCollections d)) (exportVariables d) emptyAcc
             (map snd (exportVariables d)) of
        Inl e \<Rightarrow> Inl e
      | Inr acc \<Rightarrow> finishTokens acc)"
  by (simp add: extractTokensFromFigmaVariables_def Let_def)

text \<open>
  Claim C3 (as amended). The extractor works with one default mode for the whole
  export, the default mode of the export's first collection: the loop over the
  variables runs with that mode, and a variable that has a value for it is given that
  value, resolved under that mode, whichever collection the variable belongs to. When
  the export has no collection, or its first collection names no default mode, the loop
  runs without a default mode and every variable is given the value of its first
  available mode, resolved under that mode. The resolved value is then mapped to a
  token.
\<close>

theorem extractor_uses_first_collection_default:
  "(exportVariables d \<noteq> [] \<and> exportCollections d = (k, c) # cs \<and> defaultModeId c = Some m \<longrightarrow>
      extractTokensFromFigmaVariables d =
        (case processAll (Some m) (exportVariables d) emptyAcc (map snd (exportVariables d)) of
           Inl e \<Rightarrow> Inl e
         | Inr acc \<Rightarrow> finishTokens acc)) \<and>
   (modeValue (valuesByMode variable) m = Some x \<longrightarrow>
      processVariable (Some m) vars acc variable =
        (case resolveAlias (Some x) vars (Some m) 10 of
           Inl e \<Rightarrow> Inl e
         | Inr v \<Rightarrow> Inr (storeToken acc variable v))) \<and>
   (exportVariables d \<noteq> [] \<and>
    (exportCollections d = [] \<or> (exportCollections d = (k, c) # cs \<and> defaultModeId c = None)) \<longrightarrow>
      extractTokensFromFigmaVariables d =
        (case processAll None (exportVariables d) emptyAcc (map snd (exportVariables d)) of
           Inl e \<Rightarrow> Inl e
         | Inr acc \<Rightarrow> finishTokens acc)) \<and>
   processVariable None vars acc variable =
     (case resolveAlias (firstValue (valuesByMode variable)) vars
             (firstKey (valuesByMode variable)) 10 of
        Inl e \<Rightarrow> Inl e
      | Inr v \<Rightarrow> Inr (storeToken acc variable v))"
proof (intro conjI impI)
  assume "exportVariables d \<noteq> [] \<and> exportCollections d = (k, c) # cs \<and> defaultModeId c = Some m"
  then show "extractTokensFromFigmaVariables d =
        (case processAll (Some m) (exportVariables d) emptyAcc (map snd (exportVariables d)) of
           Inl e \<Rightarrow> Inl e
         | Inr acc \<Rightarrow> finishTokens acc)"
    using extract_loop[of d] by (simp add: findDefaultModeId_def)
next
  assume "modeValue (valuesByMode variable) m = Some x"
  then show "processVariable (Some m) vars acc variable =
        (case resolveAlias (Some x) vars (Some m) 10 of
           Inl e \<Rightarrow> Inl e
         | Inr v \<Rightarrow> Inr (storeToken acc variable v))"
    by (simp add: processVariable_def selectValue_def selectModeId_def modeKey_def Let_def
        del: resolveAlias.simps)
next
  assume "exportVariables d \<noteq> [] \<and>
    (exportCollections d = [] \<or> (exportCollections d = (k, c) # cs \<and> defaultModeId c = None))"
  then have "exportVariables d \<noteq> []" and "findDefaultModeId (exportCollections d) = None"
    by (auto simp: findDefaultModeId_def)
  then show "extractTokensFromFigmaVariables d =
        (case processAll None (exportVariables d) emptyAcc (map snd (exportVariables d)) of
           Inl e \<Rightarrow> Inl e
         | Inr acc \<Rightarrow> finishTokens acc)"
    using extract_loop[of d] by simp
next
  show "processVariable None vars acc variable =
     (case resolveAlias (firstValue (valuesByMode variable)) vars
             (firstKey (valuesByMode variable)) 10 of
        Inl e \<Rightarrow> Inl e
      | Inr v \<Rightarrow> Inr (storeToken acc variable v))"
    by (simp add: processVariable_def selectValue_first selectModeId_def Let_def
        del: resolveAlias.simps)
qed

lemma twoCollectionExport_facts:
  "exportVariables twoCollectionExport \<noteq> [] \<and>
   exportCollections twoCollectionExport =
     (''collection:1'', spacingCollection) # [(''collection:2'', shapeCollection)] \<and>
   defaultModeId spacingCollection = Some ''mode:1'' \<and>
   modeValue (valuesByMode spacingVariable) ''mode:1'' = Some (FloatValue 4)"
  by code_simp

lemma twoCollectionExport_loop:
  "(case processAll (Some ''mode:1'') (exportVariables twoCollectionExport) emptyAcc
           (map snd (exportVariables twoCollectionExport)) of
      Inl e \<Rightarrow> Inl e
    | Inr acc \<Rightarrow> finishTokens acc) = Inr (emptyTokens\<lparr>spacing := Some [(''xs'', 4)]\<rparr>) \<and>
   (case resolveAlias (Some (FloatValue 4)) (exportVariables twoCollectionExport)
           (Some ''mode:1'') 10 of
      Inl e \<Rightarrow> Inl e
    | Inr v \<Rightarrow> Inr (storeToken emptyAcc spacingVariable v))
     = Inr (emptyAcc\<lparr>accSpacing := [(''xs'', 4)]\<rparr>)"
  by code_simp

lemma metaWrappedExport_facts:
  "exportVariables metaWrappedExport \<noteq> [] \<and> exportCollections metaWrappedExport = []"
  by code_simp

lemma metaWrappedExport_loop:
  "(case processAll None (exportVariables metaWrappedExport) emptyAcc
           (map snd (exportVariables metaWrappedExport)) of
      Inl e \<Rightarrow> Inl e
    | Inr acc \<Rightarrow> finishTokens acc) = Inr (emptyTokens\<lparr>radii := Some [(''sm'', 8)]\<rparr>) \<and>
   (case resolveAlias (firstValue (valuesByMode radiusVariable)) (exportVariables metaWrappedExport)
           (firstKey (valuesByMode radiusVariable)) 10 of
      Inl e \<Rightarrow> Inl e
    | Inr v \<Rightarrow> Inr (storeToken emptyAcc radiusVariable v))
     = Inr (emptyAcc\<lparr>accRadii := [(''sm'', 8)]\<rparr>)"
  by code_simp

theorem extractor_uses_first_collection_default_witness:
  "exportCollections twoCollectionExport =
     (''collection:1'', spacingCollection) # [(''collection:2'', shapeCollection)] \<and>
   defaultModeId spacingCollection = Some ''mode:1'' \<and>
   modeValue (valuesByMode spacingVariable) ''mode:1'' = Some (FloatValue 4) \<and>
   extractTokensFromFigmaVariables twoCollectionExport
     = Inr (emptyTokens\<lparr>spacing := Some [(''xs'', 4)]\<rparr>) \<and>
   processVariable (Some ''mode:1'') (exportVariables twoCollectionExport) emptyAcc spacingVariable
     = Inr (emptyAcc\<lparr>accSpacing := [(''xs'', 4)]\<rparr>) \<and>
   exportCollections metaWrappedExport = [] \<and>
   extractTokensFromFigmaVariables metaWrappedExport
     = Inr (emptyTokens\<lparr>radii := Some [(''sm'', 8)]\<rparr>) \<and>
   processVariable None (exportVariables metaWrappedExport) emptyAcc radiusVariable
     = Inr (emptyAcc\<lparr>accRadii := [(''sm'', 8)]\<rparr>)"
proof -
  note first = extractor_uses_first_collection_default
    [where d = twoCollectionExport and k = "''collection:1''" and c = spacingCollection
       and cs = "[(''collection:2'', shapeCollection)]" and m = "''mode:1''"
       and variable = spacingVariable and x = "FloatValue 4"
       and vars = "exportVariables twoCollectionExport" and acc = emptyAcc]
  note none = extractor_uses_first_collection_default
    [where d = metaWrappedExport and variable = radiusVariable
       and vars = "exportVariables metaWrappedExport" and acc = emptyAcc]
  have a: "extractTokensFromFigmaVariables twoCollectionExport
             = Inr (emptyTokens\<lparr>spacing := Some [(''xs'', 4)]\<rparr>)"
    using first twoCollectionExport_facts twoCollectionExport_loop by presburger
  have b: "processVariable (Some ''mode:1'') (exportVariables twoCollectionExport) emptyAcc
             spacingVariable = Inr (emptyAcc\<lparr>accSpacing := [(''xs'', 4)]\<rparr>)"
    using first twoCollectionExport_facts twoCollectionExport_loop by presburger
  have c: "extractTokensFromFigmaVariables metaWrappedExport
             = Inr (emptyTokens\<lparr>radii := Some [(''sm'', 8)]\<rparr>)"
    using none metaWrappedExport_facts metaWrappedExport_loop by presburger
  have d: "processVariable None (exportVariables metaWrappedExport) emptyAcc radiusVariable
             = Inr (emptyAcc\<lparr>accRadii := [(''sm'', 8)]\<rparr>)"
    using none metaWrappedExport_loop by presburger
  from a b c d twoCollectionExport_facts metaWrappedExport_facts show ?thesis by blast
qed

text \<open>
  The claim as stated fails: the second variable belongs to the second collection, whose
  default mode is \<open>mode:2\<close>, but the extractor looks its value up under \<open>mode:1\<close>, the
  default mode of the first collection, and the variable's radius does not reach the
  tokens.
\<close>

theorem selectValue_own_collection_counterexample:
  "selectValue (findDefaultModeId (exportCollections twoCollectionExport)) radiusVariable = None \<and>
   spec_selectValue (exportCollections twoCollectionExport) radiusVariable = Some (FloatValue 8) \<and>
   extractTokensFromFigmaVariables twoCollectionExport =
     Inr (emptyTokens\<lparr>spacing := Some [(''xs'', 4)]\<rparr>)"
  by code_simp

subsection \<open>Schema validation: the collections\<close>

lemma snd_mergeParsed_empty: "snd (mergeParsed ps) = [] \<longleftrightarrow> (\<forall>p \<in> set ps. snd p = [])"
  by (auto simp: mergeParsed_def)


lemma valid_iff: "valid (validateTokens input) \<longleftrightarrow> snd (designTokensSchema input) = []"
  by (simp add: validateTokens_def Let_def)

lemma errors_set:
  "snd (designTokensSchema input) \<noteq> [] \<Longrightarrow>
   errors (validateTokens input) = Some (map formatIssue (snd (designTokensSchema input)))"
  by (simp add: validateTokens_def Let_def)

lemma schema_issues_superset:
  "set (snd (designTokensObject input)) \<subseteq> set (snd (designTokensSchema input))"
  by (auto simp: designTokensSchema_def Let_def)

lemma no_category_invalid:
  assumes "\<not> hasCategory input"
  shows "snd (designTokensSchema input) \<noteq> []"
proof (cases input)
  case (JObj props)
  with assms have "designTokensObject input = (False, [])"
    by (simp add: hasCategory_def designTokensObject_def parseOptional_def parsedOk_def
        mergeParsed_def)
  with assms show ?thesis
    by (simp add: designTokensSchema_def)
qed (simp_all add: designTokensSchema_def designTokensObject_def invalidType_def)

lemma parseRecord_no_issue_obj:
  "snd (parseRecord schema p v) = [] \<Longrightarrow> \<exists>entries. v = JObj entries"
  by (cases v) (simp_all add: parseRecord_def invalidType_def)

lemma parseOptional_record_no_issue:
  "snd (parseOptional (parseRecord schema) p (Some v)) = [] \<Longrightarrow> \<exists>entries. v = JObj entries"
  using parseRecord_no_issue_obj by (simp add: parseOptional_def)

lemma valid_has_collection:
  assumes "valid (validateTokens input)"
  shows "\<exists>props. input = JObj props \<and>
           (\<exists>c \<in> set collectionNames. \<exists>entries. map_of props c = Some (JObj entries))"
proof -
  from assms have none: "snd (designTokensSchema input) = []"
    by (simp add: valid_iff)
  then have cat: "hasCategory input"
    using no_category_invalid by blast
  then obtain props where input: "input = JObj props"
    by (cases input) (simp_all add: hasCategory_def)
  from none schema_issues_superset[of input] have "snd (designTokensObject input) = []"
    by auto
  then have each:
    "snd (parseOptional (parseRecord colorToken) [''colors''] (map_of props ''colors'')) = []"
    "snd (parseOptional (parseRecord typographyToken) [''typography''] (map_of props ''typography'')) = []"
    "snd (parseOptional (parseRecord (parseNumber [(\<lambda>x. x \<ge> 0, Message ''spacing cannot be negative'')]))
               [''spacing''] (map_of props ''spacing'')) = []"
    "snd (parseOptional (parseRecord (parseNumber [(\<lambda>x. x \<ge> 0, Message ''radii cannot be negative'')]))
               [''radii''] (map_of props ''radii'')) = []"
    "snd (parseOptional (parseRecord elevationToken) [''elevation''] (map_of props ''elevation'')) = []"
    "snd (parseOptional (parseRecord motionToken) [''motion''] (map_of props ''motion'')) = []"
    by (simp_all add: input designTokensObject_def snd_mergeParsed_empty)
  from cat consider
      v where "map_of props ''colors'' = Some v"
    | v where "map_of props ''typography'' = Some v"
    | v where "map_of props ''spacing'' = Some v"
    | v where "map_of props ''radii'' = Some v"
    | v where "map_of props ''elevation'' = Some v"
    | v where "map_of props ''motion'' = Some v"
    by (auto simp: hasCategory_def input)
  then have "\<exists>c \<in> set collectionNames. \<exists>entries. map_of props c = Some (JObj entries)"
  proof cases
    case 1
    with each(1) parseOptional_record_no_issue show ?thesis
      by (fastforce simp: collectionNames_def)
  next
    case 2
    with each(2) parseOptional_record_no_issue show ?thesis
      by (fastforce simp: collectionNames_def)
  next
    case 3
    with each(3) parseOptional_record_no_issue show ?thesis
      by (fastforce simp: collectionNames_def)
  next
    case 4
    with each(4) parseOptional_record_no_issue show ?thesis
      by (fastforce simp: collectionNames_def)
  next
    case 5
    with each(5) parseOptional_record_no_issue show ?thesis
      by (fastforce simp: collectionNames_def)
  next
    case 6
    with each(6) parseOptional_record_no_issue show ?thesis
      by (fastforce simp: collectionNames_def)
  qed
  with input show ?thesis by blast
qed

lemma empty_object_invalid:
  "validateTokens (JObj []) =
     \<lparr>valid = False,
      errors = Some [(''(root)'', Message ''Token object must contain at least one token category'')]\<rparr>"
  by (simp add: validateTokens_def designTokensSchema_def designTokensObject_def
      hasCategory_def mergeParsed_def parseOptional_def parsedOk_def formatIssue_def)

lemma empty_colors_valid:
  "validateTokens emptyColorsInput = \<lparr>valid = True, errors = None\<rparr>"
  by (simp add: validateTokens_def emptyColorsInput_def designTokensSchema_def designTokensObject_def
      hasCategory_def mergeParsed_def parseOptional_def parseRecord_def parsedOk_def)


lemma parseOptional_empty_record:
  "v = None \<or> v = Some (JObj []) \<Longrightarrow> parseOptional (parseRecord schema) p v = (False, [])"
  by (auto simp: parseOptional_def parseRecord_def parsedOk_def mergeParsed_def)

lemma empty_collections_valid:
  assumes each: "\<forall>c \<in> set collectionNames. map_of props c = None \<or> map_of props c = Some (JObj [])"
    and some: "\<exists>c \<in> set collectionNames. map_of props c = Some (JObj [])"
  shows "validateTokens (JObj props) = \<lparr>valid = True, errors = None\<rparr>"
proof -
  from each have e:
    "map_of props ''colors'' = None \<or> map_of props ''colors'' = Some (JObj [])"
    "map_of props ''typography'' = None \<or> map_of props ''typography'' = Some (JObj [])"
    "map_of props ''spacing'' = None \<or> map_of props ''spacing'' = Some (JObj [])"
    "map_of props ''radii'' = None \<or> map_of props ''radii'' = Some (JObj [])"
    "map_of props ''elevation'' = None \<or> map_of props ''elevation'' = Some (JObj [])"
    "map_of props ''motion'' = None \<or> map_of props ''motion'' = Some (JObj [])"
    by (simp_all add: collectionNames_def)
  have obj: "designTokensObject (JObj props) = (False, [])"
    by (simp add: designTokensObject_def e [THEN parseOptional_empty_record] mergeParsed_def)
  from some have cat: "hasCategory (JObj props)"
    by (auto simp: hasCategory_def collectionNames_def)
  from obj cat have "designTokensSchema (JObj props) = (False, [])"
    by (simp add: designTokensSchema_def)
  then show ?thesis by (simp add: validateTokens_def)
qed

text \<open>
  Claim C2 (as amended). A value is accepted only if it is an object in which at least
  one of the six collections is present, as a mapping; the mapping may be empty: an
  object in which every present collection is an empty mapping, and one is present, is
  accepted with no error. The empty object is rejected.
\<close>

theorem validateTokens_requires_a_collection:
  "(valid (validateTokens input) \<longrightarrow>
      (\<exists>props. input = JObj props \<and>
         (\<exists>c \<in> set collectionNames. \<exists>entries. map_of props c = Some (JObj entries)))) \<and>
   ((\<forall>c \<in> set collectionNames. map_of props c = None \<or> map_of props c = Some (JObj [])) \<and>
    (\<exists>c \<in> set collectionNames. map_of props c = Some (JObj [])) \<longrightarrow>
      validateTokens (JObj props) = \<lparr>valid = True, errors = None\<rparr>) \<and>
   \<not> valid (validateTokens (JObj []))"
proof (intro conjI impI)
  assume "valid (validateTokens input)"
  then show "\<exists>props. input = JObj props \<and>
         (\<exists>c \<in> set collectionNames. \<exists>entries. map_of props c = Some (JObj entries))"
    by (rule valid_has_collection)
next
  assume "(\<forall>c \<in> set collectionNames. map_of props c = None \<or> map_of props c = Some (JObj [])) \<and>
    (\<exists>c \<in> set collectionNames. map_of props c = Some (JObj []))"
  then show "validateTokens (JObj props) = \<lparr>valid = True, errors = None\<rparr>"
    using empty_collections_valid by blast
next
  show "\<not> valid (validateTokens (JObj []))"
    by (simp add: empty_object_invalid)
qed

lemma emptyCollectionsInput_facts:
  "list_all (\<lambda>c. map_of [(''spacing'', JObj []), (''radii'', JObj [])] c = None \<or>
                 map_of [(''spacing'', JObj []), (''radii'', JObj [])] c = Some (JObj []))
     collectionNames \<and>
   list_ex (\<lambda>c. map_of [(''spacing'', JObj []), (''radii'', JObj [])] c = Some (JObj []))
     collectionNames"
  by code_simp

theorem validateTokens_requires_a_collection_witness:
  "list_all (\<lambda>c. map_of [(''spacing'', JObj []), (''radii'', JObj [])] c = None \<or>
                 map_of [(''spacing'', JObj []), (''radii'', JObj [])] c = Some (JObj []))
     collectionNames \<and>
   list_ex (\<lambda>c. map_of [(''spacing'', JObj []), (''radii'', JObj [])] c = Some (JObj []))
     collectionNames \<and>
   validateTokens emptyCollectionsInput = \<lparr>valid = True, errors = None\<rparr> \<and>
   (\<exists>props. emptyCollectionsInput = JObj props \<and>
      (\<exists>c \<in> set collectionNames. \<exists>entries. map_of props c = Some (JObj entries)))"
proof -
  note sufficient = validateTokens_requires_a_collection
    [where props = "[(''spacing'', JObj []), (''radii'', JObj [])]"
       and input = emptyCollectionsInput]
  have h: "(\<forall>c \<in> set collectionNames.
              map_of [(''spacing'', JObj []), (''radii'', JObj [])] c = None \<or>
              map_of [(''spacing'', JObj []), (''radii'', JObj [])] c = Some (JObj [])) \<and>
           (\<exists>c \<in> set collectionNames.
              map_of [(''spacing'', JObj []), (''radii'', JObj [])] c = Some (JObj []))"
    using emptyCollectionsInput_facts unfolding list_all_iff list_ex_iff .
  with sufficient
  have a: "validateTokens emptyCollectionsInput = \<lparr>valid = True, errors = None\<rparr>"
    unfolding emptyCollectionsInput_def by blast
  then have "valid (validateTokens emptyCollectionsInput)" by simp
  with sufficient
  have b: "\<exists>props. emptyCollectionsInput = JObj props \<and>
      (\<exists>c \<in> set collectionNames. \<exists>entries. map_of props c = Some (JObj entries))"
    by blast
  from a b emptyCollectionsInput_facts show ?thesis by blast
qed

text \<open>
  The claim as stated fails: a value whose only collection is an empty mapping is
  accepted.
\<close>

theorem validateTokens_empty_collection_counterexample:
  "validateTokens (JObj [(''colors'', JObj [])]) = \<lparr>valid = True, errors = None\<rparr>"
  by (simp add: validateTokens_def designTokensSchema_def designTokensObject_def
      hasCategory_def mergeParsed_def parseOptional_def parseRecord_def parsedOk_def)

subsection \<open>Schema validation: \<open>fontWeight\<close>\<close>















lemma weight450: "validateTokens (weightInput 450) =
   \<lparr>valid = False,
    errors = Some [(''typography.heading.fontWeight'', Message ''fontWeight must be a multiple of 100'')]\<rparr>"
  by (simp add: validateTokens_def weightInput_def designTokensSchema_def designTokensObject_def
    hasCategory_def mergeParsed_def parseOptional_def parseRequired_def parseRecord_def parsedOk_def formatIssue_def
    typographyToken_def fontWeightSchema_def fontWeightChecks_def parseNumber_def isInteger_def jsRem_def jsTrunc_def)

lemma weight400: "validateTokens (weightInput 400) = \<lparr>valid = True, errors = None\<rparr>"
  by (simp add: validateTokens_def weightInput_def designTokensSchema_def designTokensObject_def
    hasCategory_def mergeParsed_def parseOptional_def parseRequired_def parseRecord_def parsedOk_def formatIssue_def
    typographyToken_def fontWeightSchema_def fontWeightChecks_def parseNumber_def isInteger_def jsRem_def jsTrunc_def)

lemma weight1000: "validateTokens (weightInput 1000) =
   \<lparr>valid = False,
    errors = Some [(''typography.heading.fontWeight'', Message ''fontWeight maximum is 900'')]\<rparr>"
  by (simp add: validateTokens_def weightInput_def designTokensSchema_def designTokensObject_def
    hasCategory_def mergeParsed_def parseOptional_def parseRequired_def parseRecord_def parsedOk_def formatIssue_def
    typographyToken_def fontWeightSchema_def fontWeightChecks_def parseNumber_def isInteger_def jsRem_def jsTrunc_def)




subsection \<open>CSS custom properties: the first declaration wins\<close>

lemma map_of_setIfAbsent:
  "map_of (setIfAbsent vars d) n =
     (case map_of vars n of Some v \<Rightarrow> Some v | None \<Rightarrow> map_of [d] n)"
  by (cases d) (auto simp: setIfAbsent_def dictGet_def map_add_def split: option.splits)

lemma map_of_foldl_setIfAbsent:
  "map_of (foldl setIfAbsent vars ds) n =
     (case map_of vars n of Some v \<Rightarrow> Some v | None \<Rightarrow> map_of ds n)"
proof (induction ds arbitrary: vars)
  case Nil
  then show ?case by (simp split: option.splits)
next
  case (Cons d ds)
  show ?case
    by (cases d) (simp add: Cons.IH map_of_setIfAbsent split: option.splits)
qed

lemma distinct_setIfAbsent:
  "distinct (map fst vars) \<Longrightarrow> distinct (map fst (setIfAbsent vars d))"
  by (auto simp: setIfAbsent_def dictGet_def map_of_eq_None_iff)

lemma distinct_foldl_setIfAbsent:
  "distinct (map fst vars) \<Longrightarrow> distinct (map fst (foldl setIfAbsent vars ds))"
  by (induction ds arbitrary: vars) (simp_all add: distinct_setIfAbsent)

lemma map_of_first:
  "n \<notin> fst ` set before \<Longrightarrow> map_of (before @ (n, v) # after) n = Some v"
  by (simp add: map_add_def map_of_eq_None_iff[THEN iffD2])

text \<open>
  Claim C6. When a property name is declared more than once, \<open>parseCustomProperties\<close>
  keeps the value of its first declaration in textual order, whatever follows; each
  name is kept once, and the function returns a result for every text (it has no
  failure branch).
\<close>

theorem parseCustomProperties_first_declaration_wins:
  "(scanDeclarations (stripComments css) = before @ (n, v) # after \<and> n \<notin> fst ` set before \<longrightarrow>
      dictGet (parseCustomProperties css) n = Some v) \<and>
   distinct (map fst (parseCustomProperties css))"
proof (intro conjI impI)
  assume "scanDeclarations (stripComments css) = before @ (n, v) # after \<and> n \<notin> fst ` set before"
  then have ds: "scanDeclarations (stripComments css) = before @ (n, v) # after"
    and first: "n \<notin> fst ` set before"
    by simp_all
  have "dictGet (parseCustomProperties css) n = map_of (scanDeclarations (stripComments css)) n"
    by (simp add: parseCustomProperties_def dictGet_def map_of_foldl_setIfAbsent)
  also have "\<dots> = Some v"
    unfolding ds using first by (rule map_of_first)
  finally show "dictGet (parseCustomProperties css) n = Some v" .
next
  show "distinct (map fst (parseCustomProperties css))"
    by (simp add: parseCustomProperties_def distinct_foldl_setIfAbsent)
qed


lemma scanDeclarations_lightDarkCss:
  "scanDeclarations (stripComments lightDarkCss) =
     [] @ (''--color-primary'', ''#6750A4'')
        # [(''--space-md'', ''16px''), (''--color-primary'', ''#D0BCFF'')]"
  by code_simp

theorem parseCustomProperties_first_declaration_wins_witness:
  "(scanDeclarations (stripComments lightDarkCss) =
      [] @ (''--color-primary'', ''#6750A4'')
         # [(''--space-md'', ''16px''), (''--color-primary'', ''#D0BCFF'')] \<and>
    ''--color-primary'' \<notin> fst ` set ([] :: (string \<times> string) list)) \<and>
   dictGet (parseCustomProperties lightDarkCss) ''--color-primary'' = Some ''#6750A4''"
  using parseCustomProperties_first_declaration_wins
    [where css = lightDarkCss and before = "[]" and n = "''--color-primary''"
       and v = "''#6750A4''"
       and after = "[(''--space-md'', ''16px''), (''--color-primary'', ''#D0BCFF'')]"]
    scanDeclarations_lightDarkCss
  by simp

lemma parseCustomProperties_lightDarkCss:
  "parseCustomProperties lightDarkCss =
     [(''--color-primary'', ''#6750A4''), (''--space-md'', ''16px'')]"
  by code_simp

subsection \<open>Tailwind: \<open>theme.extend\<close> against \<open>theme\<close>\<close>

lemma extract_collections:
  assumes "extractTokensFromTheme nts (Some t) = Inr tokens"
  shows "colors tokens = map_option extractColors (objectSection t ''colors'')"
    and "spacing tokens = map_option extractNumericMap (objectSection t ''spacing'')"
    and "radii tokens = map_option extractNumericMap (objectSection t ''borderRadius'')"
    and "elevation tokens = map_option extractElevation (objectSection t ''boxShadow'')"
    and "typographyOf nts (objectSection t ''fontSize'') (objectSection t ''fontFamily'')
           = Inr (typography tokens)"
proof -
  let ?ty = "typographyOf nts (objectSection t ''fontSize'') (objectSection t ''fontFamily'')"
  from assms have tr: "truthy t"
    by (simp add: extractTokensFromTheme_def split: if_splits)
  from assms tr obtain typo where ty: "?ty = Inr typo"
    by (cases ?ty) (simp_all add: extractTokensFromTheme_def)
  from assms tr ty have tokens: "tokens =
      \<lparr>colors = map_option extractColors (objectSection t ''colors''),
       typography = typo,
       spacing = map_option extractNumericMap (objectSection t ''spacing''),
       radii = map_option extractNumericMap (objectSection t ''borderRadius''),
       elevation = map_option extractElevation (objectSection t ''boxShadow''),
       motion = None\<rparr>"
    by (simp add: extractTokensFromTheme_def Let_def split: if_splits)
  show "colors tokens = map_option extractColors (objectSection t ''colors'')"
    by (simp add: tokens)
  show "spacing tokens = map_option extractNumericMap (objectSection t ''spacing'')"
    by (simp add: tokens)
  show "radii tokens = map_option extractNumericMap (objectSection t ''borderRadius'')"
    by (simp add: tokens)
  show "elevation tokens = map_option extractElevation (objectSection t ''boxShadow'')"
    by (simp add: tokens)
  show "?ty = Inr (typography tokens)"
    by (simp add: tokens ty)
qed

lemma objectSection_extend_value:
  "extendSection t x = Some v \<Longrightarrow> v \<noteq> JNull \<Longrightarrow>
   objectSection t x = (if isObject v then Some v else None)"
  by (simp add: objectSection_def sectionOf_def)

lemma objectSection_top:
  "extendSection t x = None \<or> extendSection t x = Some JNull \<Longrightarrow>
   objectSection t x =
     (case getProp t x of
        Some w \<Rightarrow> if isObject w then Some w else None
      | None \<Rightarrow> None)"
  by (auto simp: objectSection_def sectionOf_def)

text \<open>
  Claim C1 (as amended). For colours, spacing, border radius and box shadow: when
  \<open>theme.extend.X\<close> is defined and not null, the collection is extracted from
  \<open>extend.X\<close> alone if that is an object, and is absent if it is not; the top-level
  \<open>X\<close> is not used in either case. The top-level \<open>X\<close> is used only when
  \<open>extend.X\<close> is undefined or null. Typography is built from the \<open>fontSize\<close>
  section and the \<open>fontFamily\<close> section, each chosen by the same rule on its own.
\<close>

theorem tailwind_extend_replaces_top_level:
  assumes "extractTokensFromTheme numberToString (Some t) = Inr tokens"
  shows
    "(extendSection t ''colors'' = Some c \<and> c \<noteq> JNull \<longrightarrow>
        colors tokens = (if isObject c then Some (extractColors c) else None)) \<and>
     (extendSection t ''colors'' = None \<or> extendSection t ''colors'' = Some JNull \<longrightarrow>
        colors tokens =
          (case getProp t ''colors'' of
             Some w \<Rightarrow> if isObject w then Some (extractColors w) else None
           | None \<Rightarrow> None)) \<and>
     (extendSection t ''spacing'' = Some s \<and> s \<noteq> JNull \<longrightarrow>
        spacing tokens = (if isObject s then Some (extractNumericMap s) else None)) \<and>
     (extendSection t ''spacing'' = None \<or> extendSection t ''spacing'' = Some JNull \<longrightarrow>
        spacing tokens =
          (case getProp t ''spacing'' of
             Some w \<Rightarrow> if isObject w then Some (extractNumericMap w) else None
           | None \<Rightarrow> None)) \<and>
     (extendSection t ''borderRadius'' = Some r \<and> r \<noteq> JNull \<longrightarrow>
        radii tokens = (if isObject r then Some (extractNumericMap r) else None)) \<and>
     (extendSection t ''borderRadius'' = None \<or> extendSection t ''borderRadius'' = Some JNull \<longrightarrow>
        radii tokens =
          (case getProp t ''borderRadius'' of
             Some w \<Rightarrow> if isObject w then Some (extractNumericMap w) else None
           | None \<Rightarrow> None)) \<and>
     (extendSection t ''boxShadow'' = Some b \<and> b \<noteq> JNull \<longrightarrow>
        elevation tokens = (if isObject b then Some (extractElevation b) else None)) \<and>
     (extendSection t ''boxShadow'' = None \<or> extendSection t ''boxShadow'' = Some JNull \<longrightarrow>
        elevation tokens =
          (case getProp t ''boxShadow'' of
             Some w \<Rightarrow> if isObject w then Some (extractElevation w) else None
           | None \<Rightarrow> None)) \<and>
     ((extendSection t ''fontSize'' = Some fs \<and> fs \<noteq> JNull \<and>
         S = (if isObject fs then Some fs else None) \<or>
       (extendSection t ''fontSize'' = None \<or> extendSection t ''fontSize'' = Some JNull) \<and>
         S = (case getProp t ''fontSize'' of
                Some w \<Rightarrow> if isObject w then Some w else None
              | None \<Rightarrow> None)) \<and>
      (extendSection t ''fontFamily'' = Some ff \<and> ff \<noteq> JNull \<and>
         F = (if isObject ff then Some ff else None) \<or>
       (extendSection t ''fontFamily'' = None \<or> extendSection t ''fontFamily'' = Some JNull) \<and>
         F = (case getProp t ''fontFamily'' of
                Some w \<Rightarrow> if isObject w then Some w else None
              | None \<Rightarrow> None)) \<longrightarrow>
        typographyOf numberToString S F = Inr (typography tokens))"
proof (intro conjI impI)
  note ex = extract_collections[OF assms]
  show "colors tokens = (if isObject c then Some (extractColors c) else None)"
    if "extendSection t ''colors'' = Some c \<and> c \<noteq> JNull"
    using that ex(1) objectSection_extend_value[of t "''colors''" c] by simp
  show "colors tokens =
          (case getProp t ''colors'' of
             Some w \<Rightarrow> if isObject w then Some (extractColors w) else None
           | None \<Rightarrow> None)"
    if "extendSection t ''colors'' = None \<or> extendSection t ''colors'' = Some JNull"
    using ex(1) objectSection_top[OF that] by (simp split: option.splits)
  show "spacing tokens = (if isObject s then Some (extractNumericMap s) else None)"
    if "extendSection t ''spacing'' = Some s \<and> s \<noteq> JNull"
    using that ex(2) objectSection_extend_value[of t "''spacing''" s] by simp
  show "spacing tokens =
          (case getProp t ''spacing'' of
             Some w \<Rightarrow> if isObject w then Some (extractNumericMap w) else None
           | None \<Rightarrow> None)"
    if "extendSection t ''spacing'' = None \<or> extendSection t ''spacing'' = Some JNull"
    using ex(2) objectSection_top[OF that] by (simp split: option.splits)
  show "radii tokens = (if isObject r then Some (extractNumericMap r) else None)"
    if "extendSection t ''borderRadius'' = Some r \<and> r \<noteq> JNull"
    using that ex(3) objectSection_extend_value[of t "''borderRadius''" r] by simp
  show "radii tokens =
          (case getProp t ''borderRadius'' of
             Some w \<Rightarrow> if isObject w then Some (extractNumericMap w) else None
           | None \<Rightarrow> None)"
    if "extendSection t ''borderRadius'' = None \<or> extendSection t ''borderRadius'' = Some JNull"
    using ex(3) objectSection_top[OF that] by (simp split: option.splits)
  show "elevation tokens = (if isObject b then Some (extractElevation b) else None)"
    if "extendSection t ''boxShadow'' = Some b \<and> b \<noteq> JNull"
    using that ex(4) objectSection_extend_value[of t "''boxShadow''" b] by simp
  show "elevation tokens =
          (case getProp t ''boxShadow'' of
             Some w \<Rightarrow> if isObject w then Some (extractElevation w) else None
           | None \<Rightarrow> None)"
    if "extendSection t ''boxShadow'' = None \<or> extendSection t ''boxShadow'' = Some JNull"
    using ex(4) objectSection_top[OF that] by (simp split: option.splits)
  show "typographyOf numberToString S F = Inr (typography tokens)"
    if h: "(extendSection t ''fontSize'' = Some fs \<and> fs \<noteq> JNull \<and>
         S = (if isObject fs then Some fs else None) \<or>
       (extendSection t ''fontSize'' = None \<or> extendSection t ''fontSize'' = Some JNull) \<and>
         S = (case getProp t ''fontSize'' of
                Some w \<Rightarrow> if isObject w then Some w else None
              | None \<Rightarrow> None)) \<and>
      (extendSection t ''fontFamily'' = Some ff \<and> ff \<noteq> JNull \<and>
         F = (if isObject ff then Some ff else None) \<or>
       (extendSection t ''fontFamily'' = None \<or> extendSection t ''fontFamily'' = Some JNull) \<and>
         F = (case getProp t ''fontFamily'' of
                Some w \<Rightarrow> if isObject w then Some w else None
              | None \<Rightarrow> None))"
  proof -
    have s: "S = objectSection t ''fontSize''"
    proof -
      from h consider
          (ext) "extendSection t ''fontSize'' = Some fs" "fs \<noteq> JNull"
            "S = (if isObject fs then Some fs else None)"
        | (top) "extendSection t ''fontSize'' = None \<or> extendSection t ''fontSize'' = Some JNull"
            "S = (case getProp t ''fontSize'' of
                    Some w \<Rightarrow> if isObject w then Some w else None
                  | None \<Rightarrow> None)"
        by blast
      then show ?thesis
      proof cases
        case ext
        from objectSection_extend_value[OF ext(1) ext(2)] ext(3) show ?thesis by simp
      next
        case top
        from objectSection_top[OF top(1)] top(2) show ?thesis by simp
      qed
    qed
    have f: "F = objectSection t ''fontFamily''"
    proof -
      from h consider
          (ext) "extendSection t ''fontFamily'' = Some ff" "ff \<noteq> JNull"
            "F = (if isObject ff then Some ff else None)"
        | (top) "extendSection t ''fontFamily'' = None \<or> extendSection t ''fontFamily'' = Some JNull"
            "F = (case getProp t ''fontFamily'' of
                    Some w \<Rightarrow> if isObject w then Some w else None
                  | None \<Rightarrow> None)"
        by blast
      then show ?thesis
      proof cases
        case ext
        from objectSection_extend_value[OF ext(1) ext(2)] ext(3) show ?thesis by simp
      next
        case top
        from objectSection_top[OF top(1)] top(2) show ?thesis by simp
      qed
    qed
    from s f ex(5) show ?thesis by simp
  qed
qed

lemma extract_fullTheme:
  "extractTokensFromTheme plainNumber (Some fullTheme) = Inr fullThemeTokens"
  by code_simp

lemma extract_scalarExtendTheme:
  "extractTokensFromTheme plainNumber (Some scalarExtendTheme) = Inr scalarExtendTokens"
  by code_simp

lemma extract_topLevelTheme:
  "extractTokensFromTheme plainNumber (Some topLevelTheme) = Inr topLevelTokens"
  by code_simp

lemma fullTheme_sections:
  "extendSection fullTheme ''colors'' = Some extendColors \<and> extendColors \<noteq> JNull \<and>
   isObject extendColors"
  "extendSection fullTheme ''spacing'' = Some extendSpacing \<and> extendSpacing \<noteq> JNull \<and>
   isObject extendSpacing"
  "extendSection fullTheme ''borderRadius'' = Some extendBorderRadius \<and>
   extendBorderRadius \<noteq> JNull \<and> isObject extendBorderRadius"
  "extendSection fullTheme ''boxShadow'' = Some extendBoxShadow \<and> extendBoxShadow \<noteq> JNull \<and>
   isObject extendBoxShadow"
  "extendSection fullTheme ''fontSize'' = Some extendFontSize \<and> extendFontSize \<noteq> JNull \<and>
   isObject extendFontSize"
  "extendSection fullTheme ''fontFamily'' = Some extendFontFamily \<and>
   extendFontFamily \<noteq> JNull \<and> isObject extendFontFamily"
  by code_simp+

lemma scalarExtendTheme_sections:
  "extendSection scalarExtendTheme ''colors'' = Some (JStr ''inherit'') \<and>
   getProp scalarExtendTheme ''colors'' = Some topColors"
  "extendSection scalarExtendTheme ''spacing'' = Some (JNum 4) \<and>
   getProp scalarExtendTheme ''spacing'' = Some topSpacing"
  "extendSection scalarExtendTheme ''borderRadius'' = Some (JBool True) \<and>
   getProp scalarExtendTheme ''borderRadius'' = Some topBorderRadius"
  "extendSection scalarExtendTheme ''boxShadow'' = Some (JStr ''none'') \<and>
   getProp scalarExtendTheme ''boxShadow'' = Some topBoxShadow"
  "extendSection scalarExtendTheme ''fontSize'' = Some (JStr ''16px'') \<and>
   getProp scalarExtendTheme ''fontSize'' = Some topFontSize"
  "extendSection scalarExtendTheme ''fontFamily'' = Some extendFontFamily"
  by code_simp+

lemma topLevelTheme_sections:
  "extendSection topLevelTheme ''colors'' = Some JNull \<and>
   getProp topLevelTheme ''colors'' = Some topColors \<and> isObject topColors"
  "extendSection topLevelTheme ''spacing'' = None \<and>
   getProp topLevelTheme ''spacing'' = Some topSpacing \<and> isObject topSpacing"
  "extendSection topLevelTheme ''borderRadius'' = None \<and>
   getProp topLevelTheme ''borderRadius'' = Some topBorderRadius \<and> isObject topBorderRadius"
  "extendSection topLevelTheme ''boxShadow'' = None \<and>
   getProp topLevelTheme ''boxShadow'' = Some (JStr ''none'')"
  "extendSection topLevelTheme ''fontSize'' = None \<and>
   getProp topLevelTheme ''fontSize'' = Some topFontSize \<and> isObject topFontSize"
  "extendSection topLevelTheme ''fontFamily'' = Some extendFontFamily"
  by code_simp+

theorem tailwind_extend_replaces_top_level_witness:
  "extractTokensFromTheme plainNumber (Some fullTheme) = Inr fullThemeTokens \<and>
   extendSection fullTheme ''colors'' = Some extendColors \<and>
   colors fullThemeTokens = Some (extractColors extendColors) \<and>
   spacing fullThemeTokens = Some (extractNumericMap extendSpacing) \<and>
   radii fullThemeTokens = Some (extractNumericMap extendBorderRadius) \<and>
   elevation fullThemeTokens = Some (extractElevation extendBoxShadow) \<and>
   typographyOf plainNumber (Some extendFontSize) (Some extendFontFamily)
     = Inr (typography fullThemeTokens) \<and>
   extractTokensFromTheme plainNumber (Some scalarExtendTheme) = Inr scalarExtendTokens \<and>
   extendSection scalarExtendTheme ''colors'' = Some (JStr ''inherit'') \<and>
   getProp scalarExtendTheme ''colors'' = Some topColors \<and>
   colors scalarExtendTokens = None \<and>
   spacing scalarExtendTokens = None \<and>
   radii scalarExtendTokens = None \<and>
   elevation scalarExtendTokens = None \<and>
   typographyOf plainNumber None (Some extendFontFamily)
     = Inr (typography scalarExtendTokens) \<and>
   extractTokensFromTheme plainNumber (Some topLevelTheme) = Inr topLevelTokens \<and>
   extendSection topLevelTheme ''colors'' = Some JNull \<and>
   extendSection topLevelTheme ''spacing'' = None \<and>
   colors topLevelTokens = Some (extractColors topColors) \<and>
   spacing topLevelTokens = Some (extractNumericMap topSpacing) \<and>
   radii topLevelTokens = Some (extractNumericMap topBorderRadius) \<and>
   elevation topLevelTokens = None \<and>
   typographyOf plainNumber (Some topFontSize) (Some extendFontFamily)
     = Inr (typography topLevelTokens)"
proof -
  note full = tailwind_extend_replaces_top_level
    [OF extract_fullTheme, where c = extendColors and s = extendSpacing
       and r = extendBorderRadius and b = extendBoxShadow and fs = extendFontSize
       and ff = extendFontFamily and S = "Some extendFontSize" and F = "Some extendFontFamily"]
  note scalar = tailwind_extend_replaces_top_level
    [OF extract_scalarExtendTheme, where c = "JStr ''inherit''" and s = "JNum 4"
       and r = "JBool True" and b = "JStr ''none''" and fs = "JStr ''16px''"
       and ff = extendFontFamily and S = None and F = "Some extendFontFamily"]
  note top = tailwind_extend_replaces_top_level
    [OF extract_topLevelTheme, where ff = extendFontFamily
       and S = "Some topFontSize" and F = "Some extendFontFamily"]
  have a: "colors fullThemeTokens = Some (extractColors extendColors)"
    "spacing fullThemeTokens = Some (extractNumericMap extendSpacing)"
    "radii fullThemeTokens = Some (extractNumericMap extendBorderRadius)"
    "elevation fullThemeTokens = Some (extractElevation extendBoxShadow)"
    "typographyOf plainNumber (Some extendFontSize) (Some extendFontFamily)
       = Inr (typography fullThemeTokens)"
    using full fullTheme_sections by simp_all
  have b: "colors scalarExtendTokens = None"
    "spacing scalarExtendTokens = None"
    "radii scalarExtendTokens = None"
    "elevation scalarExtendTokens = None"
    "typographyOf plainNumber None (Some extendFontFamily)
       = Inr (typography scalarExtendTokens)"
    using scalar scalarExtendTheme_sections fullTheme_sections(6)
    by (simp_all add: isObject_def)
  have c: "colors topLevelTokens = Some (extractColors topColors)"
    "spacing topLevelTokens = Some (extractNumericMap topSpacing)"
    "radii topLevelTokens = Some (extractNumericMap topBorderRadius)"
    "elevation topLevelTokens = None"
    "typographyOf plainNumber (Some topFontSize) (Some extendFontFamily)
       = Inr (typography topLevelTokens)"
    using top topLevelTheme_sections fullTheme_sections(6)
    by (simp_all add: isObject_def)
  from a b c extract_fullTheme extract_scalarExtendTheme extract_topLevelTheme
    fullTheme_sections(1) scalarExtendTheme_sections(1) topLevelTheme_sections(1,2)
  show ?thesis by simp
qed

text \<open>
  The claim as stated fails: the theme defines \<open>colors\<close> at the top level and under
  \<open>extend\<close>; the extracted colours are those of \<open>extend\<close> only, while a merge at the
  leaf level keeps \<open>primary\<close> and \<open>surface\<close> as well.
\<close>

theorem tailwind_merge_counterexample:
  "extractTokensFromTheme plainNumber (Some themeWithBoth) =
     Inr (emptyTokens\<lparr>colors := Some [(''accent'', mkColor ''#FF6B35'')]\<rparr>) \<and>
   extractColors (spec_mergeFlat topColors extendColors) =
     [(''primary'', mkColor ''#6750A4''), (''surface'', mkColor ''#FEF7FF''),
      (''accent'', mkColor ''#FF6B35'')]"
  by code_simp

end
